theory Spec2Isabelle
  imports Complex_Main
begin

section \<open>Geodesic physics module: data model\<close>

text \<open>
  The physics module of the geodesic game computes a height field from a list of point
  masses, the metric induced on the surface, its Christoffel symbols, an RK4 step and a
  whole trajectory. JavaScript numbers are modelled as exact reals: \<open>0.5\<close> is
  \<open>1/2\<close>, \<open>0.01\<close> is \<open>1/100\<close>, \<open>0.02\<close> is \<open>1/50\<close>, \<open>0.001\<close> is
  \<open>1/1000\<close> and \<open>0.3\<close> is \<open>3/10\<close>; rounding and overflow of IEEE doubles are not
  modelled. The module-level variable \<open>masses\<close> is passed to every function that reads it.
  Object fields \<open>x\<close>, \<open>y\<close>, \<open>z\<close> carry a prefix naming the object kind.

  The sources hold the physics module twice. The copy with the effective-gravity term
  (complete Christoffel symbols, default \<open>maxSteps = 15000\<close>) is modelled under the
  source's names. The other copy (simplified symbols, no effective gravity, default
  \<open>maxSteps = 2000\<close>) agrees with it on \<open>gravitationalHeight\<close>, \<open>computeGradient\<close>,
  \<open>computeMetric\<close> and the loop of \<open>computeTrajectory\<close>; where it differs its functions
  are modelled with the suffix \<open>_rev1\<close>.
\<close>

record vec2 =
  vec_x :: real
  vec_y :: real

record point3 =
  pt_x :: real
  pt_y :: real
  pt_z :: real

record mass =
  mass_x :: real
  mass_y :: real
  strength :: real

record gradient =
  dzdx :: real
  dzdy :: real

record metric =
  g11 :: real
  g12 :: real
  g21 :: real
  g22 :: real

record christoffel =
  G111 :: real
  G112 :: real
  G122 :: real
  G211 :: real
  G212 :: real
  G222 :: real

record bounds =
  minX :: real
  maxX :: real
  minY :: real
  maxY :: real

text \<open>The \<open>options\<close> argument of \<open>computeTrajectory\<close>: every property may be absent.\<close>

record options =
  opt_maxSteps :: "int option"
  opt_dt :: "real option"
  opt_bounds :: "bounds option"
  opt_goalPos :: "vec2 option"
  opt_goalRadius :: "real option"

text \<open>The object \<open>computeTrajectory\<close> returns.\<close>

record outcome =
  points :: "point3 list"
  reachedGoal :: bool
  outOfBounds :: bool
  finalPos :: vec2

text \<open>The state of the module: its only top-level variable.\<close>

record physics_state =
  masses :: "mass list"

section \<open>Vector helpers (math module)\<close>

definition length2D :: "vec2 \<Rightarrow> real" where
  "length2D v = sqrt (vec_x v * vec_x v + vec_y v * vec_y v)"

definition add2D :: "vec2 \<Rightarrow> vec2 \<Rightarrow> vec2" where
  "add2D a b = \<lparr>vec_x = vec_x a + vec_x b, vec_y = vec_y a + vec_y b\<rparr>"

definition scale2D :: "vec2 \<Rightarrow> real \<Rightarrow> vec2" where
  "scale2D v s = \<lparr>vec_x = vec_x v * s, vec_y = vec_y v * s\<rparr>"

section \<open>Mass configuration\<close>

definition setMasses :: "mass list \<Rightarrow> physics_state \<Rightarrow> physics_state" where
  "setMasses newMasses s = s\<lparr>masses := newMasses\<rparr>"

definition getMasses :: "physics_state \<Rightarrow> mass list" where
  "getMasses s = masses s"

section \<open>Height field\<close>

text \<open>
  \<open>gravitationalHeight\<close>: the accumulator \<open>height\<close> starts at 0 and every mass, in
  order, subtracts \<open>strength / (dist + 0.5)\<close> from it.
\<close>

fun gravitationalHeight_loop :: "mass list \<Rightarrow> real \<Rightarrow> real \<Rightarrow> real \<Rightarrow> real" where
  "gravitationalHeight_loop [] x y height = height"
| "gravitationalHeight_loop (m # rest) x y height =
     (let dx = x - mass_x m;
          dy = y - mass_y m;
          dist_m = sqrt (dx * dx + dy * dy)
      in gravitationalHeight_loop rest x y (height - strength m / (dist_m + 1/2)))"

definition gravitationalHeight :: "mass list \<Rightarrow> real \<Rightarrow> real \<Rightarrow> real" where
  "gravitationalHeight ms x y = gravitationalHeight_loop ms x y 0"

section \<open>Gradient, metric and Christoffel symbols\<close>

definition computeGradient :: "mass list \<Rightarrow> real \<Rightarrow> real \<Rightarrow> real \<Rightarrow> gradient" where
  "computeGradient ms x y eps =
     (let z0 = gravitationalHeight ms x y;
          zx = gravitationalHeight ms (x + eps) y;
          zy = gravitationalHeight ms x (y + eps)
      in \<lparr>dzdx = (zx - z0) / eps, dzdy = (zy - z0) / eps\<rparr>)"

definition computeMetric :: "mass list \<Rightarrow> real \<Rightarrow> real \<Rightarrow> metric" where
  "computeMetric ms x y =
     (let gr = computeGradient ms x y (1/100)
      in \<lparr>g11 = 1 + dzdx gr * dzdx gr,
          g12 = dzdx gr * dzdy gr,
          g21 = dzdx gr * dzdy gr,
          g22 = 1 + dzdy gr * dzdy gr\<rparr>)"

text \<open>
  \<open>computeChristoffel\<close> as the module with the effective-gravity term has it (its comment
  calls the symbols complete): both inverse-metric entries of a row enter every symbol.
\<close>

definition computeChristoffel :: "mass list \<Rightarrow> real \<Rightarrow> real \<Rightarrow> real \<Rightarrow> christoffel" where
  "computeChristoffel ms x y eps =
     (let g = computeMetric ms x y;
          gxp = computeMetric ms (x + eps) y;
          gxm = computeMetric ms (x - eps) y;
          gyp = computeMetric ms x (y + eps);
          gym = computeMetric ms x (y - eps);
          dg11dx = (g11 gxp - g11 gxm) / (2 * eps);
          dg11dy = (g11 gyp - g11 gym) / (2 * eps);
          dg12dx = (g12 gxp - g12 gxm) / (2 * eps);
          dg12dy = (g12 gyp - g12 gym) / (2 * eps);
          dg22dx = (g22 gxp - g22 gxm) / (2 * eps);
          dg22dy = (g22 gyp - g22 gym) / (2 * eps);
          det = g11 g * g22 g - g12 g * g21 g;
          gi11 = g22 g / det;
          gi12 = - g12 g / det;
          gi21 = - g21 g / det;
          gi22 = g11 g / det
      in \<lparr>G111 = (1/2) * (gi11 * dg11dx + gi12 * (2 * dg12dx - dg11dy)),
          G112 = (1/2) * (gi11 * dg11dy + gi12 * dg22dx),
          G122 = (1/2) * (gi11 * (2 * dg12dy - dg22dx) + gi12 * dg22dy),
          G211 = (1/2) * (gi21 * dg11dx + gi22 * (2 * dg12dx - dg11dy)),
          G212 = (1/2) * (gi21 * dg11dy + gi22 * dg22dx),
          G222 = (1/2) * (gi21 * (2 * dg12dy - dg22dx) + gi22 * dg22dy)\<rparr>)"

text \<open>
  \<open>computeChristoffel\<close> as the other copy of the physics module has it (its comment calls
  the symbols simplified for a 2D surface): only \<open>gi11\<close> and \<open>gi22\<close> are used.
\<close>

definition computeChristoffel_rev1 :: "mass list \<Rightarrow> real \<Rightarrow> real \<Rightarrow> real \<Rightarrow> christoffel" where
  "computeChristoffel_rev1 ms x y eps =
     (let g = computeMetric ms x y;
          gxp = computeMetric ms (x + eps) y;
          gxm = computeMetric ms (x - eps) y;
          gyp = computeMetric ms x (y + eps);
          gym = computeMetric ms x (y - eps);
          dg11dx = (g11 gxp - g11 gxm) / (2 * eps);
          dg11dy = (g11 gyp - g11 gym) / (2 * eps);
          dg12dx = (g12 gxp - g12 gxm) / (2 * eps);
          dg12dy = (g12 gyp - g12 gym) / (2 * eps);
          dg22dx = (g22 gxp - g22 gxm) / (2 * eps);
          dg22dy = (g22 gyp - g22 gym) / (2 * eps);
          det = g11 g * g22 g - g12 g * g21 g;
          gi11 = g22 g / det;
          gi12 = - g12 g / det;
          gi22 = g11 g / det
      in \<lparr>G111 = (1/2) * gi11 * dg11dx,
          G112 = (1/2) * gi11 * dg11dy,
          G122 = (1/2) * gi11 * (2 * dg12dy - dg22dx),
          G211 = (1/2) * gi22 * (2 * dg12dx - dg11dy),
          G212 = (1/2) * gi22 * dg22dx,
          G222 = (1/2) * gi22 * dg22dy\<rparr>)"

section \<open>Geodesic equation and RK4 integration\<close>

record rk4_result =
  res_pos :: vec2
  res_vel :: vec2

definition geodesicAcceleration :: "mass list \<Rightarrow> vec2 \<Rightarrow> vec2 \<Rightarrow> vec2" where
  "geodesicAcceleration ms p v =
     (let G = computeChristoffel ms (vec_x p) (vec_y p) (1/50);
          vx = vec_x v;
          vy = vec_y v;
          speed = sqrt (vx * vx + vy * vy)
      in if speed < 1/1000 then \<lparr>vec_x = 0, vec_y = 0\<rparr>
         else \<lparr>vec_x = - (G111 G * vx * vx + 2 * G112 G * vx * vy + G122 G * vy * vy),
               vec_y = - (G211 G * vx * vx + 2 * G212 G * vx * vy + G222 G * vy * vy)\<rparr>)"

definition computeEffectiveGravity :: "mass list \<Rightarrow> vec2 \<Rightarrow> vec2" where
  "computeEffectiveGravity ms p =
     (let gr = computeGradient ms (vec_x p) (vec_y p) (1/100);
          gravityStrength = 2
      in \<lparr>vec_x = - dzdx gr * gravityStrength, vec_y = - dzdy gr * gravityStrength\<rparr>)"

definition totalAcceleration :: "mass list \<Rightarrow> vec2 \<Rightarrow> vec2 \<Rightarrow> vec2" where
  "totalAcceleration ms p v =
     (let geodesic = geodesicAcceleration ms p v;
          gravity = computeEffectiveGravity ms p
      in \<lparr>vec_x = vec_x geodesic + vec_x gravity, vec_y = vec_y geodesic + vec_y gravity\<rparr>)"

definition integrateRK4 :: "mass list \<Rightarrow> vec2 \<Rightarrow> vec2 \<Rightarrow> real \<Rightarrow> rk4_result" where
  "integrateRK4 ms p v h =
     (let a1 = totalAcceleration ms p v;
          k1v = scale2D a1 h;
          k1p = scale2D v h;
          pos2 = add2D p (scale2D k1p (1/2));
          vel2 = add2D v (scale2D k1v (1/2));
          a2 = totalAcceleration ms pos2 vel2;
          k2v = scale2D a2 h;
          k2p = scale2D vel2 h;
          pos3 = add2D p (scale2D k2p (1/2));
          vel3 = add2D v (scale2D k2v (1/2));
          a3 = totalAcceleration ms pos3 vel3;
          k3v = scale2D a3 h;
          k3p = scale2D vel3 h;
          pos4 = add2D p k3p;
          vel4 = add2D v k3v;
          a4 = totalAcceleration ms pos4 vel4;
          k4v = scale2D a4 h;
          k4p = scale2D vel4 h;
          newPos = \<lparr>vec_x = vec_x p + (vec_x k1p + 2 * vec_x k2p + 2 * vec_x k3p + vec_x k4p) / 6,
                    vec_y = vec_y p + (vec_y k1p + 2 * vec_y k2p + 2 * vec_y k3p + vec_y k4p) / 6\<rparr>;
          newVel = \<lparr>vec_x = vec_x v + (vec_x k1v + 2 * vec_x k2v + 2 * vec_x k3v + vec_x k4v) / 6,
                    vec_y = vec_y v + (vec_y k1v + 2 * vec_y k2v + 2 * vec_y k3v + vec_y k4v) / 6\<rparr>
      in \<lparr>res_pos = newPos, res_vel = newVel\<rparr>)"

text \<open>
  The other copy of the module: \<open>geodesicAcceleration\<close> has no test on the speed and
  \<open>integrateRK4\<close> calls it directly; there is no effective-gravity term.
\<close>

definition geodesicAcceleration_rev1 :: "mass list \<Rightarrow> vec2 \<Rightarrow> vec2 \<Rightarrow> vec2" where
  "geodesicAcceleration_rev1 ms p v =
     (let G = computeChristoffel_rev1 ms (vec_x p) (vec_y p) (1/50);
          vx = vec_x v;
          vy = vec_y v
      in \<lparr>vec_x = - (G111 G * vx * vx + 2 * G112 G * vx * vy + G122 G * vy * vy),
          vec_y = - (G211 G * vx * vx + 2 * G212 G * vx * vy + G222 G * vy * vy)\<rparr>)"

definition integrateRK4_rev1 :: "mass list \<Rightarrow> vec2 \<Rightarrow> vec2 \<Rightarrow> real \<Rightarrow> rk4_result" where
  "integrateRK4_rev1 ms p v h =
     (let a1 = geodesicAcceleration_rev1 ms p v;
          k1v = scale2D a1 h;
          k1p = scale2D v h;
          pos2 = add2D p (scale2D k1p (1/2));
          vel2 = add2D v (scale2D k1v (1/2));
          a2 = geodesicAcceleration_rev1 ms pos2 vel2;
          k2v = scale2D a2 h;
          k2p = scale2D vel2 h;
          pos3 = add2D p (scale2D k2p (1/2));
          vel3 = add2D v (scale2D k2v (1/2));
          a3 = geodesicAcceleration_rev1 ms pos3 vel3;
          k3v = scale2D a3 h;
          k3p = scale2D vel3 h;
          pos4 = add2D p k3p;
          vel4 = add2D v k3v;
          a4 = geodesicAcceleration_rev1 ms pos4 vel4;
          k4v = scale2D a4 h;
          k4p = scale2D vel4 h;
          newPos = \<lparr>vec_x = vec_x p + (vec_x k1p + 2 * vec_x k2p + 2 * vec_x k3p + vec_x k4p) / 6,
                    vec_y = vec_y p + (vec_y k1p + 2 * vec_y k2p + 2 * vec_y k3p + vec_y k4p) / 6\<rparr>;
          newVel = \<lparr>vec_x = vec_x v + (vec_x k1v + 2 * vec_x k2v + 2 * vec_x k3v + vec_x k4v) / 6,
                    vec_y = vec_y v + (vec_y k1v + 2 * vec_y k2v + 2 * vec_y k3v + vec_y k4v) / 6\<rparr>
      in \<lparr>res_pos = newPos, res_vel = newVel\<rparr>)"

section \<open>Trajectory\<close>

text \<open>
  The destructured options, defaults applied, and the local variables of
  \<open>computeTrajectory\<close> that the loop updates. \<open>maxSteps\<close> and the loop counter are
  integers of any size.
\<close>

record params =
  maxSteps :: int
  dt :: real
  bounds_of :: bounds
  goalPos :: "vec2 option"
  goalRadius :: real

record loop_state =
  trajectory :: "point3 list"
  cur_pos :: vec2
  cur_vel :: vec2
  flag_reachedGoal :: bool
  flag_outOfBounds :: bool

text \<open>
  How the \<open>for\<close> loop was left: by one of its three \<open>break\<close> statements, or because
  \<open>i < maxSteps\<close> became false.
\<close>

datatype loop_exit = GoalBreak | BoundsBreak | TooCloseBreak | LoopEnd

definition resolveOptions :: "options \<Rightarrow> params" where
  "resolveOptions opts =
     \<lparr>maxSteps = (case opt_maxSteps opts of None \<Rightarrow> 15000 | Some n \<Rightarrow> n),
      dt = (case opt_dt opts of None \<Rightarrow> 1/100 | Some h \<Rightarrow> h),
      bounds_of = (case opt_bounds opts of
                     None \<Rightarrow> \<lparr>minX = -5, maxX = 5, minY = -5, maxY = 5\<rparr>
                   | Some b \<Rightarrow> b),
      goalPos = opt_goalPos opts,
      goalRadius = (case opt_goalRadius opts of None \<Rightarrow> 3/10 | Some r \<Rightarrow> r)\<rparr>"

text \<open>The test \<open>if (goalPos) { ... distToGoal < goalRadius }\<close>.\<close>

definition atGoal :: "params \<Rightarrow> vec2 \<Rightarrow> bool" where
  "atGoal pr p =
     (case goalPos pr of
        None \<Rightarrow> False
      | Some g \<Rightarrow>
          length2D \<lparr>vec_x = vec_x p - vec_x g, vec_y = vec_y p - vec_y g\<rparr> < goalRadius pr)"

text \<open>The bounds test.\<close>

definition outsideBounds :: "bounds \<Rightarrow> vec2 \<Rightarrow> bool" where
  "outsideBounds b p =
     (vec_x p < minX b \<or> vec_x p > maxX b \<or> vec_y p < minY b \<or> vec_y p > maxY b)"

text \<open>The inner loop over the masses that sets \<open>tooClose\<close> and breaks at the first hit.\<close>

fun tooClose :: "mass list \<Rightarrow> vec2 \<Rightarrow> bool" where
  "tooClose [] p = False"
| "tooClose (m # rest) p =
     (if length2D \<lparr>vec_x = vec_x p - mass_x m, vec_y = vec_y p - mass_y m\<rparr> < 3/10 then True
      else tooClose rest p)"

text \<open>The point pushed onto \<open>trajectory\<close>.\<close>

definition samplePoint :: "mass list \<Rightarrow> vec2 \<Rightarrow> point3" where
  "samplePoint ms p =
     \<lparr>pt_x = vec_x p, pt_y = vec_y p, pt_z = gravitationalHeight ms (vec_x p) (vec_y p)\<rparr>"

function trajectory_loop :: "mass list \<Rightarrow> params \<Rightarrow> int \<Rightarrow> loop_state \<Rightarrow> loop_exit \<times> loop_state" where
  "trajectory_loop ms pr i st =
     (if i < maxSteps pr then
        (let st1 = st\<lparr>trajectory := trajectory st @ [samplePoint ms (cur_pos st)]\<rparr>
         in if atGoal pr (cur_pos st1) then (GoalBreak, st1\<lparr>flag_reachedGoal := True\<rparr>)
            else if outsideBounds (bounds_of pr) (cur_pos st1)
              then (BoundsBreak, st1\<lparr>flag_outOfBounds := True\<rparr>)
            else (let result = integrateRK4 ms (cur_pos st1) (cur_vel st1) (dt pr);
                      st2 = st1\<lparr>cur_pos := res_pos result, cur_vel := res_vel result\<rparr>
                  in if tooClose ms (cur_pos st2) then (TooCloseBreak, st2)
                     else trajectory_loop ms pr (i + 1) st2))
      else (LoopEnd, st))"
  by pat_completeness auto
termination
  by (relation "measure (\<lambda>(ms, pr, i, st). nat (maxSteps pr - i))") auto

definition initialState :: "vec2 \<Rightarrow> vec2 \<Rightarrow> loop_state" where
  "initialState startPos startVel =
     \<lparr>trajectory = [], cur_pos = startPos, cur_vel = startVel,
      flag_reachedGoal = False, flag_outOfBounds = False\<rparr>"

definition runLoop :: "mass list \<Rightarrow> vec2 \<Rightarrow> vec2 \<Rightarrow> options \<Rightarrow> loop_exit \<times> loop_state" where
  "runLoop ms startPos startVel opts =
     trajectory_loop ms (resolveOptions opts) 0 (initialState startPos startVel)"

definition computeTrajectory :: "mass list \<Rightarrow> vec2 \<Rightarrow> vec2 \<Rightarrow> options \<Rightarrow> outcome" where
  "computeTrajectory ms startPos startVel opts =
     (let st = snd (runLoop ms startPos startVel opts)
      in \<lparr>points = trajectory st,
          reachedGoal = flag_reachedGoal st,
          outOfBounds = flag_outOfBounds st,
          finalPos = cur_pos st\<rparr>)"

text \<open>Which exit ended the loop of a call: not part of the returned object.\<close>

definition exitOf :: "mass list \<Rightarrow> vec2 \<Rightarrow> vec2 \<Rightarrow> options \<Rightarrow> loop_exit" where
  "exitOf ms startPos startVel opts = fst (runLoop ms startPos startVel opts)"

text \<open>
  A call of the exported function against the module state: it reads \<open>masses\<close> and
  assigns only its own local variables.
\<close>

definition computeTrajectory_call ::
    "vec2 \<Rightarrow> vec2 \<Rightarrow> options \<Rightarrow> physics_state \<Rightarrow> outcome \<times> physics_state" where
  "computeTrajectory_call startPos startVel opts s =
     (computeTrajectory (masses s) startPos startVel opts, s)"

section \<open>Notions used to state the properties\<close>

text \<open>The distance from a query point to a mass, as the height field uses it.\<close>

definition distance_to_mass :: "mass \<Rightarrow> real \<Rightarrow> real \<Rightarrow> real" where
  "distance_to_mass m x y = sqrt ((x - mass_x m)\<^sup>2 + (y - mass_y m)\<^sup>2)"

text \<open>One RK4 step on the pair (position, velocity), and \<open>k\<close> steps in a row.\<close>

definition rk4_step :: "mass list \<Rightarrow> real \<Rightarrow> vec2 \<times> vec2 \<Rightarrow> vec2 \<times> vec2" where
  "rk4_step ms h pv =
     (res_pos (integrateRK4 ms (fst pv) (snd pv) h), res_vel (integrateRK4 ms (fst pv) (snd pv) h))"

definition stateAfter :: "mass list \<Rightarrow> real \<Rightarrow> nat \<Rightarrow> vec2 \<times> vec2 \<Rightarrow> vec2 \<times> vec2" where
  "stateAfter ms h k pv = (rk4_step ms h ^^ k) pv"

text \<open>The first \<open>n\<close> samples of the path: sample \<open>k\<close> is taken after \<open>k\<close> steps.\<close>

definition samples :: "mass list \<Rightarrow> real \<Rightarrow> vec2 \<times> vec2 \<Rightarrow> nat \<Rightarrow> point3 list" where
  "samples ms h pv n = map (\<lambda>k. samplePoint ms (fst (stateAfter ms h k pv))) [0..<n]"

text \<open>
  The two updates of the loop body: pushing the current position, and then replacing
  position and velocity by the result of the RK4 step.
\<close>

definition recorded :: "mass list \<Rightarrow> loop_state \<Rightarrow> loop_state" where
  "recorded ms st = st\<lparr>trajectory := trajectory st @ [samplePoint ms (cur_pos st)]\<rparr>"

definition stepped :: "mass list \<Rightarrow> params \<Rightarrow> loop_state \<Rightarrow> loop_state" where
  "stepped ms pr st =
     (recorded ms st)\<lparr>cur_pos := res_pos (integrateRK4 ms (cur_pos st) (cur_vel st) (dt pr)),
                      cur_vel := res_vel (integrateRK4 ms (cur_pos st) (cur_vel st) (dt pr))\<rparr>"

text \<open>
  What the loop started at \<open>(i, st)\<close> leaves behind when it has pushed \<open>n\<close> points: the
  points are the samples of the path, at most \<open>maxSteps - i\<close> of them, and the final
  state is the one after \<open>n\<close> steps, or after \<open>n - 1\<close> steps when the goal or the bounds
  test ended the loop; every position before the final state passed both tests.
\<close>

definition loop_post ::
    "mass list \<Rightarrow> params \<Rightarrow> int \<Rightarrow> loop_state \<Rightarrow> loop_exit \<times> loop_state \<Rightarrow> nat \<Rightarrow> bool" where
  "loop_post ms pr i st r n =
     (trajectory (snd r) = trajectory st @ samples ms (dt pr) (cur_pos st, cur_vel st) n
      \<and> n \<le> nat (maxSteps pr - i)
      \<and> (cur_pos (snd r), cur_vel (snd r)) =
          stateAfter ms (dt pr) (if fst r = GoalBreak \<or> fst r = BoundsBreak then n - 1 else n)
            (cur_pos st, cur_vel st)
      \<and> (if fst r = LoopEnd then n = nat (maxSteps pr - i) else 1 \<le> n)
      \<and> (\<forall>k. k < (if fst r = GoalBreak \<or> fst r = BoundsBreak then n - 1 else n) \<longrightarrow>
             \<not> atGoal pr (fst (stateAfter ms (dt pr) k (cur_pos st, cur_vel st)))
             \<and> \<not> outsideBounds (bounds_of pr) (fst (stateAfter ms (dt pr) k (cur_pos st, cur_vel st)))))"

text \<open>
  The Christoffel formula in the specification's words:
  \<open>\<Gamma>\<^sup>i\<^sub>j\<^sub>k = 1/2 * g\<^sup>i\<^sup>l * (\<partial>\<^sub>k g\<^sub>l\<^sub>j + \<partial>\<^sub>j g\<^sub>l\<^sub>k - \<partial>\<^sub>l g\<^sub>j\<^sub>k)\<close>, summed over both values of
  \<open>l\<close>. An index is \<open>X1\<close> (the \<open>x\<close> direction) or \<open>X2\<close> (the \<open>y\<close> direction);
  \<open>metric_derivative ms x y eps k l j\<close> is the centred difference of \<open>g\<^sub>l\<^sub>j\<close> in direction
  \<open>k\<close> over the step \<open>2 * eps\<close>; \<open>inverse_metric g i l\<close> is the closed-form inverse with
  \<open>det = g11 * g22 - g12 * g21\<close> and \<open>gi12 = gi21 = - g12 / det\<close>.
\<close>

datatype coord = X1 | X2

fun metric_entry :: "metric \<Rightarrow> coord \<Rightarrow> coord \<Rightarrow> real" where
  "metric_entry g X1 X1 = g11 g"
| "metric_entry g X1 X2 = g12 g"
| "metric_entry g X2 X1 = g21 g"
| "metric_entry g X2 X2 = g22 g"

fun metric_derivative ::
    "mass list \<Rightarrow> real \<Rightarrow> real \<Rightarrow> real \<Rightarrow> coord \<Rightarrow> coord \<Rightarrow> coord \<Rightarrow> real" where
  "metric_derivative ms x y eps X1 l j =
     (metric_entry (computeMetric ms (x + eps) y) l j
      - metric_entry (computeMetric ms (x - eps) y) l j) / (2 * eps)"
| "metric_derivative ms x y eps X2 l j =
     (metric_entry (computeMetric ms x (y + eps)) l j
      - metric_entry (computeMetric ms x (y - eps)) l j) / (2 * eps)"

fun inverse_metric :: "metric \<Rightarrow> coord \<Rightarrow> coord \<Rightarrow> real" where
  "inverse_metric g X1 X1 = g22 g / (g11 g * g22 g - g12 g * g21 g)"
| "inverse_metric g X1 X2 = - g12 g / (g11 g * g22 g - g12 g * g21 g)"
| "inverse_metric g X2 X1 = - g12 g / (g11 g * g22 g - g12 g * g21 g)"
| "inverse_metric g X2 X2 = g11 g / (g11 g * g22 g - g12 g * g21 g)"

definition christoffel_contraction ::
    "mass list \<Rightarrow> real \<Rightarrow> real \<Rightarrow> real \<Rightarrow> coord \<Rightarrow> coord \<Rightarrow> coord \<Rightarrow> real" where
  "christoffel_contraction ms x y eps i j k =
     (1/2) * (\<Sum>l\<leftarrow>[X1, X2].
        inverse_metric (computeMetric ms x y) i l
        * (metric_derivative ms x y eps k l j + metric_derivative ms x y eps j l k
           - metric_derivative ms x y eps l j k))"

text \<open>The diagonal-only shortcut: of the sum over \<open>l\<close> only the term \<open>l = i\<close>.\<close>

definition christoffel_diagonal_only ::
    "mass list \<Rightarrow> real \<Rightarrow> real \<Rightarrow> real \<Rightarrow> coord \<Rightarrow> coord \<Rightarrow> coord \<Rightarrow> real" where
  "christoffel_diagonal_only ms x y eps i j k =
     (1/2) * inverse_metric (computeMetric ms x y) i i
     * (metric_derivative ms x y eps k i j + metric_derivative ms x y eps j i k
        - metric_derivative ms x y eps i j k)"

text \<open>
  The acceleration in the specification's words. \<open>pure_geodesic G v\<close> is \<open>-\<Gamma>(v, v)\<close>;
  \<open>claimed_geodesic\<close> is \<open>(0, 0)\<close> below the speed \<open>0.001\<close> and \<open>-\<Gamma>(v, v)\<close> otherwise;
  \<open>claimed_acceleration\<close> adds \<open>-2\<close> times the gradient. \<open>rk4_scheme acc\<close> is the classical
  fourth-order Runge-Kutta step of \<open>dpos/dt = vel\<close>, \<open>dvel/dt = acc pos vel\<close> with the
  weights \<open>(1, 2, 2, 1)/6\<close>.
\<close>

definition pure_geodesic :: "christoffel \<Rightarrow> vec2 \<Rightarrow> vec2" where
  "pure_geodesic G v =
     \<lparr>vec_x = - (G111 G * (vec_x v)\<^sup>2 + 2 * G112 G * vec_x v * vec_y v + G122 G * (vec_y v)\<^sup>2),
      vec_y = - (G211 G * (vec_x v)\<^sup>2 + 2 * G212 G * vec_x v * vec_y v + G222 G * (vec_y v)\<^sup>2)\<rparr>"

definition claimed_geodesic :: "christoffel \<Rightarrow> vec2 \<Rightarrow> vec2" where
  "claimed_geodesic G v =
     (if sqrt ((vec_x v)\<^sup>2 + (vec_y v)\<^sup>2) < 1/1000 then \<lparr>vec_x = 0, vec_y = 0\<rparr>
      else pure_geodesic G v)"

definition claimed_acceleration :: "christoffel \<Rightarrow> gradient \<Rightarrow> vec2 \<Rightarrow> vec2" where
  "claimed_acceleration G gr v =
     \<lparr>vec_x = vec_x (claimed_geodesic G v) + (- 2) * dzdx gr,
      vec_y = vec_y (claimed_geodesic G v) + (- 2) * dzdy gr\<rparr>"

definition rk4_scheme :: "(vec2 \<Rightarrow> vec2 \<Rightarrow> vec2) \<Rightarrow> vec2 \<Rightarrow> vec2 \<Rightarrow> real \<Rightarrow> rk4_result" where
  "rk4_scheme acc p v h =
     (let a1 = acc p v;
          p2 = add2D p (scale2D v (h / 2));
          v2 = add2D v (scale2D a1 (h / 2));
          a2 = acc p2 v2;
          p3 = add2D p (scale2D v2 (h / 2));
          v3 = add2D v (scale2D a2 (h / 2));
          a3 = acc p3 v3;
          p4 = add2D p (scale2D v3 h);
          v4 = add2D v (scale2D a3 h);
          a4 = acc p4 v4
      in \<lparr>res_pos = add2D p (scale2D (add2D (add2D v (scale2D v2 2)) (add2D (scale2D v3 2) v4)) (h / 6)),
          res_vel = add2D v (scale2D (add2D (add2D a1 (scale2D a2 2)) (add2D (scale2D a3 2) a4)) (h / 6))\<rparr>)"

text \<open>Two option objects used in the examples: all other properties are absent.\<close>

definition oneStepOptions :: "real \<Rightarrow> options" where
  "oneStepOptions h = \<lparr>opt_maxSteps = Some 1, opt_dt = Some h, opt_bounds = None,
                       opt_goalPos = None, opt_goalRadius = None\<rparr>"


section \<open>Height field: sum over the masses and the well shape\<close>

lemma distance_to_mass_nonneg: "0 \<le> distance_to_mass m x y"
  by (simp add: distance_to_mass_def)

lemma gravitationalHeight_loop_sum:
  "gravitationalHeight_loop ms x y h =
     h + (\<Sum>m\<leftarrow>ms. - (strength m / (distance_to_mass m x y + 1/2)))"
  by (induction ms arbitrary: h) (simp_all add: distance_to_mass_def power2_eq_square Let_def)

lemma gravitationalHeight_Nil [simp]: "gravitationalHeight [] x y = 0"
  by (simp add: gravitationalHeight_def)

lemma height_on_axis:
  "gravitationalHeight [\<lparr>mass_x = 0, mass_y = 0, strength = s\<rparr>] x 0 = - (s / (\<bar>x\<bar> + 1/2))"
  by (simp add: gravitationalHeight_def)

text \<open>
  C7. For every mass configuration and every \<open>(x, y)\<close>, \<open>gravitationalHeight\<close> is the sum
  over the masses of \<open>- strength / (distance_to_mass + 0.5)\<close>. Every denominator is at
  least \<open>0.5\<close>, so no division by zero occurs and the function has no failure mode; at
  a mass's centre the distance is 0 and that mass contributes \<open>- strength / 0.5\<close>.
\<close>

theorem gravitationalHeight_sum:
  "gravitationalHeight ms x y = (\<Sum>m\<leftarrow>ms. - (strength m / (distance_to_mass m x y + 1/2)))
   \<and> (\<forall>m \<in> set ms. 1/2 \<le> distance_to_mass m x y + 1/2)
   \<and> (\<forall>m \<in> set ms. mass_x m = x \<and> mass_y m = y \<longrightarrow>
         distance_to_mass m x y = 0
         \<and> - (strength m / (distance_to_mass m x y + 1/2)) = - (strength m / (1/2)))"
  by (simp add: gravitationalHeight_def gravitationalHeight_loop_sum distance_to_mass_nonneg)
     (simp add: distance_to_mass_def)

theorem gravitationalHeight_sum_witness:
  "gravitationalHeight [\<lparr>mass_x = 0, mass_y = 0, strength = 3/2\<rparr>] 0 0 = - 3
   \<and> distance_to_mass \<lparr>mass_x = 0, mass_y = 0, strength = 3/2\<rparr> 0 0 = 0
   \<and> - (strength \<lparr>mass_x = 0, mass_y = 0, strength = 3/2\<rparr> / (1/2)) = - 3"
  using gravitationalHeight_sum [of "[\<lparr>mass_x = 0, mass_y = 0, strength = 3/2\<rparr>]" 0 0]
  by simp

lemma single_mass_height:
  "gravitationalHeight [m] x y = - (strength m / (distance_to_mass m x y + 1/2))"
  by (simp add: gravitationalHeight_def gravitationalHeight_loop_sum)

lemma well_term_mono:
  fixes s a b :: real
  assumes "0 < s" and "0 \<le> a" and "a < b"
  shows "- (s / (a + 1/2)) < - (s / (b + 1/2))"
proof -
  have "0 < a + 1/2" and "a + 1/2 < b + 1/2"
    using assms by linarith+
  then have "s / (b + 1/2) < s / (a + 1/2)"
    using assms(1) by (simp add: divide_strict_left_mono)
  then show ?thesis by simp
qed

text \<open>
  C9. For a configuration of a single mass of positive strength and any two query points
  \<open>p\<close> and \<open>q\<close>: if \<open>p\<close> is strictly nearer to the mass than \<open>q\<close>, the height at \<open>p\<close> is
  strictly below the height at \<open>q\<close>.
\<close>

theorem height_monotone_single_mass:
  assumes "0 < strength m"
    and "distance_to_mass m px py < distance_to_mass m qx qy"
  shows "gravitationalHeight [m] px py < gravitationalHeight [m] qx qy"
proof -
  have "0 \<le> distance_to_mass m px py"
    by (rule distance_to_mass_nonneg)
  with assms have "- (strength m / (distance_to_mass m px py + 1/2))
      < - (strength m / (distance_to_mass m qx qy + 1/2))"
    by (intro well_term_mono)
  then show ?thesis
    by (simp only: single_mass_height)
qed

theorem height_monotone_single_mass_witness:
  "0 < strength \<lparr>mass_x = 0, mass_y = 0, strength = 1\<rparr>
   \<and> distance_to_mass \<lparr>mass_x = 0, mass_y = 0, strength = 1\<rparr> 1 0
       < distance_to_mass \<lparr>mass_x = 0, mass_y = 0, strength = 1\<rparr> 2 0
   \<and> gravitationalHeight [\<lparr>mass_x = 0, mass_y = 0, strength = 1\<rparr>] 1 0
       < gravitationalHeight [\<lparr>mass_x = 0, mass_y = 0, strength = 1\<rparr>] 2 0"
  using height_monotone_single_mass [of "\<lparr>mass_x = 0, mass_y = 0, strength = 1\<rparr>" 1 0 2 0]
  by (simp add: distance_to_mass_def)

section \<open>Metric and Christoffel symbols\<close>

declare metric_derivative.simps [simp del] inverse_metric.simps [simp del]

lemma computeMetric_symmetric: "g21 (computeMetric ms x y) = g12 (computeMetric ms x y)"
  by (simp add: computeMetric_def Let_def)

lemma metric_determinant:
  "g11 (computeMetric ms x y) * g22 (computeMetric ms x y)
     - g12 (computeMetric ms x y) * g21 (computeMetric ms x y)
   = 1 + (dzdx (computeGradient ms x y (1/100)))\<^sup>2 + (dzdy (computeGradient ms x y (1/100)))\<^sup>2"
  by (simp add: computeMetric_def Let_def power2_eq_square algebra_simps)

lemma metric_determinant_ge_1:
  "1 \<le> g11 (computeMetric ms x y) * g22 (computeMetric ms x y)
     - g12 (computeMetric ms x y) * g21 (computeMetric ms x y)"
  unfolding metric_determinant by simp

lemma metric_determinant_nonzero:
  "g11 (computeMetric ms x y) * g22 (computeMetric ms x y)
     - g12 (computeMetric ms x y) * g21 (computeMetric ms x y) \<noteq> 0"
  using metric_determinant_ge_1 [of ms x y] by linarith

lemma metric_derivative_symmetric:
  "metric_derivative ms x y eps k X2 X1 = metric_derivative ms x y eps k X1 X2"
  by (cases k) (simp_all add: computeMetric_symmetric metric_derivative.simps)

lemma christoffel_contraction_unfold:
  "christoffel_contraction ms x y eps i j k =
     (1/2) * (inverse_metric (computeMetric ms x y) i X1
                * (metric_derivative ms x y eps k X1 j + metric_derivative ms x y eps j X1 k
                   - metric_derivative ms x y eps X1 j k)
              + inverse_metric (computeMetric ms x y) i X2
                * (metric_derivative ms x y eps k X2 j + metric_derivative ms x y eps j X2 k
                   - metric_derivative ms x y eps X2 j k))"
  by (simp add: christoffel_contraction_def)

text \<open>The symbols of both copies, written with the entries of the inverse metric and the
  centred differences.\<close>

lemma computeChristoffel_by_entries:
  "computeChristoffel ms x y eps =
     \<lparr>G111 = (1/2) * (inverse_metric (computeMetric ms x y) X1 X1 * metric_derivative ms x y eps X1 X1 X1
                + inverse_metric (computeMetric ms x y) X1 X2
                  * (2 * metric_derivative ms x y eps X1 X1 X2 - metric_derivative ms x y eps X2 X1 X1)),
      G112 = (1/2) * (inverse_metric (computeMetric ms x y) X1 X1 * metric_derivative ms x y eps X2 X1 X1
                + inverse_metric (computeMetric ms x y) X1 X2 * metric_derivative ms x y eps X1 X2 X2),
      G122 = (1/2) * (inverse_metric (computeMetric ms x y) X1 X1
                  * (2 * metric_derivative ms x y eps X2 X1 X2 - metric_derivative ms x y eps X1 X2 X2)
                + inverse_metric (computeMetric ms x y) X1 X2 * metric_derivative ms x y eps X2 X2 X2),
      G211 = (1/2) * (inverse_metric (computeMetric ms x y) X2 X1 * metric_derivative ms x y eps X1 X1 X1
                + inverse_metric (computeMetric ms x y) X2 X2
                  * (2 * metric_derivative ms x y eps X1 X1 X2 - metric_derivative ms x y eps X2 X1 X1)),
      G212 = (1/2) * (inverse_metric (computeMetric ms x y) X2 X1 * metric_derivative ms x y eps X2 X1 X1
                + inverse_metric (computeMetric ms x y) X2 X2 * metric_derivative ms x y eps X1 X2 X2),
      G222 = (1/2) * (inverse_metric (computeMetric ms x y) X2 X1
                  * (2 * metric_derivative ms x y eps X2 X1 X2 - metric_derivative ms x y eps X1 X2 X2)
                + inverse_metric (computeMetric ms x y) X2 X2 * metric_derivative ms x y eps X2 X2 X2)\<rparr>"
  by (simp only: computeChristoffel_def Let_def metric_derivative.simps metric_entry.simps
        inverse_metric.simps computeMetric_symmetric)

lemma computeChristoffel_rev1_by_entries:
  "computeChristoffel_rev1 ms x y eps =
     \<lparr>G111 = (1/2) * inverse_metric (computeMetric ms x y) X1 X1 * metric_derivative ms x y eps X1 X1 X1,
      G112 = (1/2) * inverse_metric (computeMetric ms x y) X1 X1 * metric_derivative ms x y eps X2 X1 X1,
      G122 = (1/2) * inverse_metric (computeMetric ms x y) X1 X1
               * (2 * metric_derivative ms x y eps X2 X1 X2 - metric_derivative ms x y eps X1 X2 X2),
      G211 = (1/2) * inverse_metric (computeMetric ms x y) X2 X2
               * (2 * metric_derivative ms x y eps X1 X1 X2 - metric_derivative ms x y eps X2 X1 X1),
      G212 = (1/2) * inverse_metric (computeMetric ms x y) X2 X2 * metric_derivative ms x y eps X1 X2 X2,
      G222 = (1/2) * inverse_metric (computeMetric ms x y) X2 X2 * metric_derivative ms x y eps X2 X2 X2\<rparr>"
  by (simp only: computeChristoffel_rev1_def Let_def metric_derivative.simps metric_entry.simps
        inverse_metric.simps computeMetric_symmetric)

text \<open>
  The copy with the complete symbols computes the full contraction, for every mass
  configuration, query point and step.
\<close>

lemma computeChristoffel_full_contraction:
  "G111 (computeChristoffel ms x y eps) = christoffel_contraction ms x y eps X1 X1 X1
   \<and> G112 (computeChristoffel ms x y eps) = christoffel_contraction ms x y eps X1 X1 X2
   \<and> G122 (computeChristoffel ms x y eps) = christoffel_contraction ms x y eps X1 X2 X2
   \<and> G211 (computeChristoffel ms x y eps) = christoffel_contraction ms x y eps X2 X1 X1
   \<and> G212 (computeChristoffel ms x y eps) = christoffel_contraction ms x y eps X2 X1 X2
   \<and> G222 (computeChristoffel ms x y eps) = christoffel_contraction ms x y eps X2 X2 X2"
  unfolding computeChristoffel_by_entries christoffel_contraction_unfold metric_derivative_symmetric
  by simp

lemma christoffel_contraction_symmetric:
  "christoffel_contraction ms x y eps i j k = christoffel_contraction ms x y eps i k j"
  unfolding christoffel_contraction_unfold
  by (cases j; cases k) (simp_all add: metric_derivative_symmetric)

text \<open>The copy with the simplified symbols computes the diagonal-only shortcut.\<close>

lemma computeChristoffel_rev1_diagonal_only:
  "G111 (computeChristoffel_rev1 ms x y eps) = christoffel_diagonal_only ms x y eps X1 X1 X1
   \<and> G112 (computeChristoffel_rev1 ms x y eps) = christoffel_diagonal_only ms x y eps X1 X1 X2
   \<and> G122 (computeChristoffel_rev1 ms x y eps) = christoffel_diagonal_only ms x y eps X1 X2 X2
   \<and> G211 (computeChristoffel_rev1 ms x y eps) = christoffel_diagonal_only ms x y eps X2 X1 X1
   \<and> G212 (computeChristoffel_rev1 ms x y eps) = christoffel_diagonal_only ms x y eps X2 X1 X2
   \<and> G222 (computeChristoffel_rev1 ms x y eps) = christoffel_diagonal_only ms x y eps X2 X2 X2"
  unfolding computeChristoffel_rev1_by_entries christoffel_diagonal_only_def metric_derivative_symmetric
  by simp

lemma G211_difference:
  "G211 (computeChristoffel ms x y eps) =
     G211 (computeChristoffel_rev1 ms x y eps)
     + (1/2) * (inverse_metric (computeMetric ms x y) X2 X1 * metric_derivative ms x y eps X1 X1 X1)"
  unfolding computeChristoffel_by_entries computeChristoffel_rev1_by_entries
  by (simp add: algebra_simps)

text \<open>Values on the \<open>x\<close> axis for one mass at the origin.\<close>

lemma dzdx_on_axis:
  "dzdx (computeGradient [\<lparr>mass_x = 0, mass_y = 0, strength = s\<rparr>] x 0 (1/100)) =
     (s / (\<bar>x\<bar> + 1/2) - s / (\<bar>x + 1/100\<bar> + 1/2)) * 100"
  by (simp add: computeGradient_def height_on_axis Let_def)

lemma g11_on_axis:
  "g11 (computeMetric [\<lparr>mass_x = 0, mass_y = 0, strength = s\<rparr>] x 0) =
     1 + ((s / (\<bar>x\<bar> + 1/2) - s / (\<bar>x + 1/100\<bar> + 1/2)) * 100)\<^sup>2"
  using dzdx_on_axis [of s x] by (simp add: computeMetric_def Let_def power2_eq_square)

lemma dg11dx_example:
  "metric_derivative [\<lparr>mass_x = 0, mass_y = 0, strength = 1\<rparr>] 1 0 (1/50) X1 X1 X1 < 0"
  by (simp add: metric_derivative.simps g11_on_axis power2_eq_square)

lemma dzdx_example:
  "dzdx (computeGradient [\<lparr>mass_x = 0, mass_y = 0, strength = 1\<rparr>] 1 0 (1/100)) = 200/453"
  by (simp add: dzdx_on_axis)

lemma dzdy_example:
  "0 < dzdy (computeGradient [\<lparr>mass_x = 0, mass_y = 0, strength = 1\<rparr>] 1 0 (1/100))"
proof -
  let ?m = "\<lparr>mass_x = 0, mass_y = 0, strength = 1\<rparr>"
  have "distance_to_mass ?m 1 0 < distance_to_mass ?m 1 (1/100)"
    by (simp add: distance_to_mass_def)
  then have "- (strength ?m / (distance_to_mass ?m 1 0 + 1/2))
      < - (strength ?m / (distance_to_mass ?m 1 (1/100) + 1/2))"
    by (intro well_term_mono distance_to_mass_nonneg) simp_all
  then have "gravitationalHeight [?m] 1 0 < gravitationalHeight [?m] 1 (1/100)"
    by (simp only: single_mass_height)
  then show ?thesis
    by (simp add: computeGradient_def Let_def)
qed

lemma inverse_metric_example:
  "inverse_metric (computeMetric [\<lparr>mass_x = 0, mass_y = 0, strength = 1\<rparr>] 1 0) X2 X1 < 0"
proof -
  let ?g = "computeMetric [\<lparr>mass_x = 0, mass_y = 0, strength = 1\<rparr>] 1 0"
  have "0 < g12 ?g"
    using dzdy_example by (simp add: computeMetric_def Let_def dzdx_example)
  moreover have "0 < g11 ?g * g22 ?g - g12 ?g * g21 ?g"
    using metric_determinant_ge_1 [of "[\<lparr>mass_x = 0, mass_y = 0, strength = 1\<rparr>]" 1 0] by linarith
  ultimately show ?thesis
    by (simp add: inverse_metric.simps divide_neg_pos)
qed

text \<open>
  C1. \<open>computeChristoffel\<close> evaluates the metric at the 5-point stencil, forms centred
  differences with step \<open>2 * eps\<close>, inverts the metric in closed form and returns the six
  symbols of the full contraction, off-diagonal inverse-metric terms included. The copy
  with the complete symbols does so for every input (\<open>computeChristoffel_full_contraction\<close>).
  The copy with the simplified symbols does not: for one mass of strength 1 at the
  origin, the query point \<open>(1, 0)\<close> and \<open>eps = 0.02\<close> its \<open>G211\<close> is the diagonal-only
  value, which differs from the full contraction by the dropped term
  \<open>0.5 * gi21 * dg11dx\<close> (both factors are negative there).
\<close>

theorem computeChristoffel_rev1_not_full_contraction:
  "G211 (computeChristoffel_rev1 [\<lparr>mass_x = 0, mass_y = 0, strength = 1\<rparr>] 1 0 (1/50))
     \<noteq> christoffel_contraction [\<lparr>mass_x = 0, mass_y = 0, strength = 1\<rparr>] 1 0 (1/50) X2 X1 X1
   \<and> G211 (computeChristoffel_rev1 [\<lparr>mass_x = 0, mass_y = 0, strength = 1\<rparr>] 1 0 (1/50))
     = christoffel_diagonal_only [\<lparr>mass_x = 0, mass_y = 0, strength = 1\<rparr>] 1 0 (1/50) X2 X1 X1
   \<and> G211 (computeChristoffel [\<lparr>mass_x = 0, mass_y = 0, strength = 1\<rparr>] 1 0 (1/50))
     = christoffel_contraction [\<lparr>mass_x = 0, mass_y = 0, strength = 1\<rparr>] 1 0 (1/50) X2 X1 X1"
proof -
  let ?ms = "[\<lparr>mass_x = 0, mass_y = 0, strength = 1\<rparr>]"
  have "inverse_metric (computeMetric ?ms 1 0) X2 X1 * metric_derivative ?ms 1 0 (1/50) X1 X1 X1 \<noteq> 0"
    using inverse_metric_example dg11dx_example by simp
  then have "G211 (computeChristoffel_rev1 ?ms 1 0 (1/50)) \<noteq> G211 (computeChristoffel ?ms 1 0 (1/50))"
    unfolding G211_difference [of ?ms 1 0 "1/50"] by simp
  then show ?thesis
    using computeChristoffel_full_contraction [of ?ms 1 0 "1/50"]
      computeChristoffel_rev1_diagonal_only [of ?ms 1 0 "1/50"] by simp
qed

section \<open>Acceleration\<close>

text \<open>
  The acceleration the integrator of the copy with the effective-gravity term uses, for
  every state: the geodesic term, zero below the speed \<open>0.001\<close>, plus \<open>-2\<close> times the
  gradient.
\<close>

lemma totalAcceleration_formula:
  "totalAcceleration ms p v =
     \<lparr>vec_x = (if length2D v < 1/1000 then 0
               else - (G111 (computeChristoffel ms (vec_x p) (vec_y p) (1/50)) * vec_x v * vec_x v
                       + 2 * G112 (computeChristoffel ms (vec_x p) (vec_y p) (1/50)) * vec_x v * vec_y v
                       + G122 (computeChristoffel ms (vec_x p) (vec_y p) (1/50)) * vec_y v * vec_y v))
              + (- 2) * dzdx (computeGradient ms (vec_x p) (vec_y p) (1/100)),
      vec_y = (if length2D v < 1/1000 then 0
               else - (G211 (computeChristoffel ms (vec_x p) (vec_y p) (1/50)) * vec_x v * vec_x v
                       + 2 * G212 (computeChristoffel ms (vec_x p) (vec_y p) (1/50)) * vec_x v * vec_y v
                       + G222 (computeChristoffel ms (vec_x p) (vec_y p) (1/50)) * vec_y v * vec_y v))
              + (- 2) * dzdy (computeGradient ms (vec_x p) (vec_y p) (1/100))\<rparr>"
  by (simp add: totalAcceleration_def geodesicAcceleration_def computeEffectiveGravity_def
        length2D_def Let_def)

lemma geodesicAcceleration_rev1_at_rest:
  "geodesicAcceleration_rev1 ms p \<lparr>vec_x = 0, vec_y = 0\<rparr> = \<lparr>vec_x = 0, vec_y = 0\<rparr>"
  by (simp add: geodesicAcceleration_rev1_def Let_def)

lemma integrateRK4_rev1_at_rest:
  "integrateRK4_rev1 ms p \<lparr>vec_x = 0, vec_y = 0\<rparr> h = \<lparr>res_pos = p, res_vel = \<lparr>vec_x = 0, vec_y = 0\<rparr>\<rparr>"
  by (simp add: integrateRK4_rev1_def Let_def scale2D_def add2D_def geodesicAcceleration_rev1_at_rest)

lemma totalAcceleration_example:
  "vec_x (totalAcceleration [\<lparr>mass_x = 0, mass_y = 0, strength = 1\<rparr>] \<lparr>vec_x = 1, vec_y = 0\<rparr>
            \<lparr>vec_x = 0, vec_y = 0\<rparr>) = - (400/453)"
  by (simp add: totalAcceleration_formula length2D_def dzdx_example)

lemma slow_speed: "sqrt ((1/2000) * (1/2000) + 0 * 0) = (1/2000 :: real)"
  by (rule real_sqrt_unique) (simp_all add: power2_eq_square)

lemma geodesicAcceleration_clamped_example:
  "geodesicAcceleration [\<lparr>mass_x = 0, mass_y = 0, strength = 1\<rparr>] \<lparr>vec_x = 1, vec_y = 0\<rparr>
      \<lparr>vec_x = 1/2000, vec_y = 0\<rparr> = \<lparr>vec_x = 0, vec_y = 0\<rparr>"
  unfolding geodesicAcceleration_def Let_def
  by (simp only: vec2.simps slow_speed) simp

lemma G111_rev1_example:
  "G111 (computeChristoffel_rev1 [\<lparr>mass_x = 0, mass_y = 0, strength = 1\<rparr>] 1 0 (1/50)) < 0"
proof -
  let ?ms = "[\<lparr>mass_x = 0, mass_y = 0, strength = 1\<rparr>]"
  let ?g = "computeMetric ?ms 1 0"
  have "1 \<le> g22 ?g"
    by (simp add: computeMetric_def Let_def)
  moreover have "0 < g11 ?g * g22 ?g - g12 ?g * g21 ?g"
    using metric_determinant_ge_1 [of ?ms 1 0] by linarith
  ultimately have "0 < inverse_metric ?g X1 X1"
    by (simp add: inverse_metric.simps)
  then have "inverse_metric ?g X1 X1 * metric_derivative ?ms 1 0 (1/50) X1 X1 X1 < 0"
    using dg11dx_example by (rule mult_pos_neg)
  then show ?thesis
    unfolding computeChristoffel_rev1_by_entries by simp
qed

lemma geodesicAcceleration_rev1_unclamped_example:
  "0 < vec_x (geodesicAcceleration_rev1 [\<lparr>mass_x = 0, mass_y = 0, strength = 1\<rparr>]
               \<lparr>vec_x = 1, vec_y = 0\<rparr> \<lparr>vec_x = 1/2000, vec_y = 0\<rparr>)"
  using G111_rev1_example by (simp add: geodesicAcceleration_rev1_def Let_def)

lemma geodesicAcceleration_claimed:
  "geodesicAcceleration ms p v =
     claimed_geodesic (computeChristoffel ms (vec_x p) (vec_y p) (1/50)) v"
  by (simp add: geodesicAcceleration_def claimed_geodesic_def pure_geodesic_def Let_def
        power2_eq_square algebra_simps)

lemma totalAcceleration_claimed:
  "totalAcceleration ms p v =
     claimed_acceleration (computeChristoffel ms (vec_x p) (vec_y p) (1/50))
       (computeGradient ms (vec_x p) (vec_y p) (1/100)) v"
  by (simp add: totalAcceleration_def geodesicAcceleration_claimed claimed_acceleration_def
        computeEffectiveGravity_def Let_def)

lemma geodesicAcceleration_rev1_pure:
  "geodesicAcceleration_rev1 ms p v =
     pure_geodesic (computeChristoffel_rev1 ms (vec_x p) (vec_y p) (1/50)) v"
  by (simp add: geodesicAcceleration_rev1_def pure_geodesic_def Let_def power2_eq_square algebra_simps)

lemma scaled_twice: "scale2D (scale2D v h) (1/2) = scale2D v (h / 2)"
  by (simp add: scale2D_def)

lemma integrateRK4_scheme: "integrateRK4 ms p v h = rk4_scheme (totalAcceleration ms) p v h"
  unfolding integrateRK4_def rk4_scheme_def Let_def scaled_twice
  by (simp add: scale2D_def add2D_def algebra_simps)

lemma integrateRK4_rev1_scheme:
  "integrateRK4_rev1 ms p v h = rk4_scheme (geodesicAcceleration_rev1 ms) p v h"
  unfolding integrateRK4_rev1_def rk4_scheme_def Let_def scaled_twice
  by (simp add: scale2D_def add2D_def algebra_simps)

text \<open>
  C2, as amended. In the copy of the module with \<open>totalAcceleration\<close>, for every state:
  below the speed \<open>0.001\<close> the geodesic acceleration is exactly \<open>(0, 0)\<close>, otherwise it
  is \<open>-\<Gamma>(v, v)\<close> from the Christoffel symbols at the position, and the acceleration the
  RK4 step uses in all four stages is this term plus \<open>-2\<close> times the gradient of the
  height field. In the other copy, for every state, the geodesic acceleration is
  \<open>-\<Gamma>(v, v)\<close> from its simplified symbols at every speed, and the RK4 step uses it alone:
  that copy has no speed test and no effective-gravity term.
\<close>

theorem acceleration_of_both_copies:
  "geodesicAcceleration ms p v =
     claimed_geodesic (computeChristoffel ms (vec_x p) (vec_y p) (1/50)) v
   \<and> totalAcceleration ms p v =
     claimed_acceleration (computeChristoffel ms (vec_x p) (vec_y p) (1/50))
       (computeGradient ms (vec_x p) (vec_y p) (1/100)) v
   \<and> integrateRK4 ms p v h = rk4_scheme (totalAcceleration ms) p v h
   \<and> geodesicAcceleration_rev1 ms p v =
     pure_geodesic (computeChristoffel_rev1 ms (vec_x p) (vec_y p) (1/50)) v
   \<and> integrateRK4_rev1 ms p v h = rk4_scheme (geodesicAcceleration_rev1 ms) p v h"
proof (intro conjI)
  show "geodesicAcceleration ms p v =
      claimed_geodesic (computeChristoffel ms (vec_x p) (vec_y p) (1/50)) v"
    by (rule geodesicAcceleration_claimed)
  show "totalAcceleration ms p v =
      claimed_acceleration (computeChristoffel ms (vec_x p) (vec_y p) (1/50))
        (computeGradient ms (vec_x p) (vec_y p) (1/100)) v"
    by (rule totalAcceleration_claimed)
  show "integrateRK4 ms p v h = rk4_scheme (totalAcceleration ms) p v h"
    by (rule integrateRK4_scheme)
  show "geodesicAcceleration_rev1 ms p v =
      pure_geodesic (computeChristoffel_rev1 ms (vec_x p) (vec_y p) (1/50)) v"
    by (rule geodesicAcceleration_rev1_pure)
  show "integrateRK4_rev1 ms p v h = rk4_scheme (geodesicAcceleration_rev1 ms) p v h"
    by (rule integrateRK4_rev1_scheme)
qed

theorem acceleration_of_both_copies_witness:
  "totalAcceleration [\<lparr>mass_x = 0, mass_y = 0, strength = 1\<rparr>] \<lparr>vec_x = 1, vec_y = 0\<rparr>
      \<lparr>vec_x = 0, vec_y = 0\<rparr>
     = \<lparr>vec_x = - (400/453),
        vec_y = - 2 * dzdy (computeGradient [\<lparr>mass_x = 0, mass_y = 0, strength = 1\<rparr>] 1 0 (1/100))\<rparr>
   \<and> geodesicAcceleration [\<lparr>mass_x = 0, mass_y = 0, strength = 1\<rparr>] \<lparr>vec_x = 1, vec_y = 0\<rparr>
      \<lparr>vec_x = 0, vec_y = 0\<rparr> = \<lparr>vec_x = 0, vec_y = 0\<rparr>"
  using acceleration_of_both_copies [of "[\<lparr>mass_x = 0, mass_y = 0, strength = 1\<rparr>]"
      "\<lparr>vec_x = 1, vec_y = 0\<rparr>" "\<lparr>vec_x = 0, vec_y = 0\<rparr>"]
  by (simp add: claimed_acceleration_def claimed_geodesic_def dzdx_example)

text \<open>
  C2 as stated fails for the copy without \<open>totalAcceleration\<close>, for one mass of strength
  1 at the origin and the position \<open>(1, 0)\<close>. At the velocity \<open>(0.0005, 0)\<close>, below the
  speed \<open>0.001\<close>, its geodesic acceleration has a positive \<open>x\<close> component instead of being
  \<open>(0, 0)\<close>. At rest the acceleration its RK4 step uses is \<open>(0, 0)\<close> and the step returns
  the state unchanged, where the acceleration of the claim has the \<open>x\<close> component
  \<open>-400/453\<close>.
\<close>

theorem acceleration_rev1_counterexample:
  "sqrt ((1/2000)\<^sup>2 + 0\<^sup>2) < (1/1000 :: real)
   \<and> geodesicAcceleration_rev1 [\<lparr>mass_x = 0, mass_y = 0, strength = 1\<rparr>] \<lparr>vec_x = 1, vec_y = 0\<rparr>
        \<lparr>vec_x = 1/2000, vec_y = 0\<rparr>
       \<noteq> claimed_geodesic (computeChristoffel_rev1 [\<lparr>mass_x = 0, mass_y = 0, strength = 1\<rparr>] 1 0 (1/50))
           \<lparr>vec_x = 1/2000, vec_y = 0\<rparr>
   \<and> 0 < vec_x (geodesicAcceleration_rev1 [\<lparr>mass_x = 0, mass_y = 0, strength = 1\<rparr>]
               \<lparr>vec_x = 1, vec_y = 0\<rparr> \<lparr>vec_x = 1/2000, vec_y = 0\<rparr>)
   \<and> geodesicAcceleration_rev1 [\<lparr>mass_x = 0, mass_y = 0, strength = 1\<rparr>] \<lparr>vec_x = 1, vec_y = 0\<rparr>
        \<lparr>vec_x = 0, vec_y = 0\<rparr>
       \<noteq> claimed_acceleration (computeChristoffel_rev1 [\<lparr>mass_x = 0, mass_y = 0, strength = 1\<rparr>] 1 0 (1/50))
           (computeGradient [\<lparr>mass_x = 0, mass_y = 0, strength = 1\<rparr>] 1 0 (1/100))
           \<lparr>vec_x = 0, vec_y = 0\<rparr>
   \<and> vec_x (claimed_acceleration (computeChristoffel_rev1 [\<lparr>mass_x = 0, mass_y = 0, strength = 1\<rparr>] 1 0 (1/50))
           (computeGradient [\<lparr>mass_x = 0, mass_y = 0, strength = 1\<rparr>] 1 0 (1/100))
           \<lparr>vec_x = 0, vec_y = 0\<rparr>) = - (400/453)
   \<and> integrateRK4_rev1 [\<lparr>mass_x = 0, mass_y = 0, strength = 1\<rparr>] \<lparr>vec_x = 1, vec_y = 0\<rparr>
        \<lparr>vec_x = 0, vec_y = 0\<rparr> (1/100)
       = \<lparr>res_pos = \<lparr>vec_x = 1, vec_y = 0\<rparr>, res_vel = \<lparr>vec_x = 0, vec_y = 0\<rparr>\<rparr>"
proof -
  let ?ms = "[\<lparr>mass_x = 0, mass_y = 0, strength = 1\<rparr>]"
  let ?p = "\<lparr>vec_x = 1, vec_y = 0\<rparr>"
  have slow: "sqrt ((1/2000)\<^sup>2 + 0\<^sup>2) < (1/1000 :: real)"
    using slow_speed by (simp add: power2_eq_square)
  then have c0: "claimed_geodesic G \<lparr>vec_x = 1/2000, vec_y = 0\<rparr> = \<lparr>vec_x = 0, vec_y = 0\<rparr>" for G
    unfolding claimed_geodesic_def by (simp only: vec2.simps if_True)
  have pos: "0 < vec_x (geodesicAcceleration_rev1 ?ms ?p \<lparr>vec_x = 1/2000, vec_y = 0\<rparr>)"
    by (rule geodesicAcceleration_rev1_unclamped_example)
  then have ne1: "geodesicAcceleration_rev1 ?ms ?p \<lparr>vec_x = 1/2000, vec_y = 0\<rparr>
      \<noteq> claimed_geodesic (computeChristoffel_rev1 ?ms 1 0 (1/50)) \<lparr>vec_x = 1/2000, vec_y = 0\<rparr>"
    unfolding c0 by auto
  have cx: "vec_x (claimed_acceleration (computeChristoffel_rev1 ?ms 1 0 (1/50))
      (computeGradient ?ms 1 0 (1/100)) \<lparr>vec_x = 0, vec_y = 0\<rparr>) = - (400/453)"
    by (simp add: claimed_acceleration_def claimed_geodesic_def dzdx_example)
  have ne2: "geodesicAcceleration_rev1 ?ms ?p \<lparr>vec_x = 0, vec_y = 0\<rparr>
      \<noteq> claimed_acceleration (computeChristoffel_rev1 ?ms 1 0 (1/50))
           (computeGradient ?ms 1 0 (1/100)) \<lparr>vec_x = 0, vec_y = 0\<rparr>"
    using cx unfolding geodesicAcceleration_rev1_at_rest by auto
  show ?thesis
    using slow ne1 pos ne2 cx integrateRK4_rev1_at_rest [of ?ms ?p "1/100"] by simp
qed

section \<open>The flat field of an empty configuration\<close>

lemma computeMetric_Nil [simp]: "computeMetric [] x y = \<lparr>g11 = 1, g12 = 0, g21 = 0, g22 = 1\<rparr>"
  by (simp add: computeMetric_def computeGradient_def)

lemma computeChristoffel_Nil [simp]:
  "computeChristoffel [] x y eps = \<lparr>G111 = 0, G112 = 0, G122 = 0, G211 = 0, G212 = 0, G222 = 0\<rparr>"
  by (simp add: computeChristoffel_def)

section \<open>The loop of computeTrajectory\<close>

declare trajectory_loop.simps [simp del]

lemma loop_end: "\<not> i < maxSteps pr \<Longrightarrow> trajectory_loop ms pr i st = (LoopEnd, st)"
  by (subst trajectory_loop.simps) simp

lemma loop_goal:
  "i < maxSteps pr \<Longrightarrow> atGoal pr (cur_pos st) \<Longrightarrow>
   trajectory_loop ms pr i st = (GoalBreak, (recorded ms st)\<lparr>flag_reachedGoal := True\<rparr>)"
  by (subst trajectory_loop.simps) (simp add: recorded_def)

lemma loop_bounds:
  "i < maxSteps pr \<Longrightarrow> \<not> atGoal pr (cur_pos st) \<Longrightarrow> outsideBounds (bounds_of pr) (cur_pos st) \<Longrightarrow>
   trajectory_loop ms pr i st = (BoundsBreak, (recorded ms st)\<lparr>flag_outOfBounds := True\<rparr>)"
  by (subst trajectory_loop.simps) (simp add: recorded_def)

lemma loop_close:
  "i < maxSteps pr \<Longrightarrow> \<not> atGoal pr (cur_pos st) \<Longrightarrow> \<not> outsideBounds (bounds_of pr) (cur_pos st) \<Longrightarrow>
   tooClose ms (cur_pos (stepped ms pr st)) \<Longrightarrow>
   trajectory_loop ms pr i st = (TooCloseBreak, stepped ms pr st)"
  by (subst trajectory_loop.simps) (simp add: recorded_def stepped_def Let_def)

lemma loop_continue:
  "i < maxSteps pr \<Longrightarrow> \<not> atGoal pr (cur_pos st) \<Longrightarrow> \<not> outsideBounds (bounds_of pr) (cur_pos st) \<Longrightarrow>
   \<not> tooClose ms (cur_pos (stepped ms pr st)) \<Longrightarrow>
   trajectory_loop ms pr i st = trajectory_loop ms pr (i + 1) (stepped ms pr st)"
  by (subst trajectory_loop.simps) (simp add: recorded_def stepped_def Let_def)

text \<open>Induction along the iterations: one case for each way an iteration can end.\<close>

lemma loop_induct [case_names End Goal Bounds Close Continue]:
  assumes "\<And>i st. \<not> i < maxSteps pr \<Longrightarrow> P i st"
    and "\<And>i st. i < maxSteps pr \<Longrightarrow> atGoal pr (cur_pos st) \<Longrightarrow> P i st"
    and "\<And>i st. i < maxSteps pr \<Longrightarrow> \<not> atGoal pr (cur_pos st) \<Longrightarrow>
           outsideBounds (bounds_of pr) (cur_pos st) \<Longrightarrow> P i st"
    and "\<And>i st. i < maxSteps pr \<Longrightarrow> \<not> atGoal pr (cur_pos st) \<Longrightarrow>
           \<not> outsideBounds (bounds_of pr) (cur_pos st) \<Longrightarrow>
           tooClose ms (cur_pos (stepped ms pr st)) \<Longrightarrow> P i st"
    and "\<And>i st. i < maxSteps pr \<Longrightarrow> \<not> atGoal pr (cur_pos st) \<Longrightarrow>
           \<not> outsideBounds (bounds_of pr) (cur_pos st) \<Longrightarrow>
           \<not> tooClose ms (cur_pos (stepped ms pr st)) \<Longrightarrow>
           P (i + 1) (stepped ms pr st) \<Longrightarrow> P i st"
  shows "P i st"
proof (induction "nat (maxSteps pr - i)" arbitrary: i st rule: less_induct)
  case (less i st)
  show ?case
  proof (cases "i < maxSteps pr")
    case False
    then show ?thesis by (rule assms(1))
  next
    case lt: True
    show ?thesis
    proof (cases "atGoal pr (cur_pos st)")
      case True
      with lt show ?thesis by (rule assms(2))
    next
      case ng: False
      show ?thesis
      proof (cases "outsideBounds (bounds_of pr) (cur_pos st)")
        case True
        with lt ng show ?thesis by (rule assms(3))
      next
        case nb: False
        show ?thesis
        proof (cases "tooClose ms (cur_pos (stepped ms pr st))")
          case True
          with lt ng nb show ?thesis by (rule assms(4))
        next
          case nc: False
          have "nat (maxSteps pr - (i + 1)) < nat (maxSteps pr - i)"
            using lt by simp
          then have "P (i + 1) (stepped ms pr st)"
            by (rule less)
          with lt ng nb nc show ?thesis by (rule assms(5))
        qed
      qed
    qed
  qed
qed

lemma stateAfter_0 [simp]: "stateAfter ms h 0 pv = pv"
  by (simp add: stateAfter_def)

lemma stateAfter_Suc: "stateAfter ms h (Suc k) pv = rk4_step ms h (stateAfter ms h k pv)"
  by (simp add: stateAfter_def)

lemma stateAfter_shift: "stateAfter ms h k (rk4_step ms h pv) = stateAfter ms h (Suc k) pv"
  by (simp add: stateAfter_def funpow_swap1)

lemma stepped_simps [simp]:
  "cur_pos (stepped ms pr st) = fst (rk4_step ms (dt pr) (cur_pos st, cur_vel st))"
  "cur_vel (stepped ms pr st) = snd (rk4_step ms (dt pr) (cur_pos st, cur_vel st))"
  "trajectory (stepped ms pr st) = trajectory st @ [samplePoint ms (cur_pos st)]"
  "flag_reachedGoal (stepped ms pr st) = flag_reachedGoal st"
  "flag_outOfBounds (stepped ms pr st) = flag_outOfBounds st"
  by (simp_all add: stepped_def recorded_def rk4_step_def)

lemma recorded_simps [simp]:
  "cur_pos (recorded ms st) = cur_pos st"
  "cur_vel (recorded ms st) = cur_vel st"
  "trajectory (recorded ms st) = trajectory st @ [samplePoint ms (cur_pos st)]"
  "flag_reachedGoal (recorded ms st) = flag_reachedGoal st"
  "flag_outOfBounds (recorded ms st) = flag_outOfBounds st"
  by (simp_all add: recorded_def)

lemma samples_0 [simp]: "samples ms h pv 0 = []"
  by (simp add: samples_def)

lemma samples_1 [simp]: "samples ms h pv (Suc 0) = [samplePoint ms (fst pv)]"
  by (simp add: samples_def)

lemma samples_shift:
  "samplePoint ms (fst pv) # samples ms h (rk4_step ms h pv) n = samples ms h pv (Suc n)"
  unfolding samples_def by (simp add: map_upt_Suc stateAfter_shift del: upt_Suc)

lemma length_samples [simp]: "length (samples ms h pv n) = n"
  by (simp add: samples_def)

lemma samples_last:
  "0 < n \<Longrightarrow> last (samples ms h pv n) = samplePoint ms (fst (stateAfter ms h (n - 1) pv))"
  by (cases n) (simp_all add: samples_def)

lemma loop_trajectory:
  "\<exists>n. loop_post ms pr i st (trajectory_loop ms pr i st) n"
proof (induction i st rule: loop_induct [where ms = ms and pr = pr])
  case (End i st)
  then show ?case
    by (intro exI [of _ 0]) (simp add: loop_post_def loop_end)
next
  case (Goal i st)
  then show ?case
    by (intro exI [of _ 1]) (simp add: loop_post_def loop_goal)
next
  case (Bounds i st)
  then show ?case
    by (intro exI [of _ 1]) (simp add: loop_post_def loop_bounds)
next
  case (Close i st)
  then show ?case
    by (intro exI [of _ 1]) (simp add: loop_post_def loop_close stateAfter_def)
next
  case (Continue i st)
  then obtain n where n: "loop_post ms pr (i + 1) (stepped ms pr st) (trajectory_loop ms pr i st) n"
    by (auto simp: loop_continue)
  let ?r = "trajectory_loop ms pr i st"
  let ?pv = "(cur_pos st, cur_vel st)"
  have eq: "trajectory (snd ?r) = trajectory st @ samples ms (dt pr) ?pv (Suc n)"
    using n by (simp add: loop_post_def samples_shift [symmetric])
  have le: "Suc n \<le> nat (maxSteps pr - i)"
    using n Continue(1) by (simp add: loop_post_def) linarith
  have fin: "(cur_pos (snd ?r), cur_vel (snd ?r)) =
       stateAfter ms (dt pr) (if fst ?r = GoalBreak \<or> fst ?r = BoundsBreak then Suc n - 1 else Suc n) ?pv"
  proof (cases "fst ?r = GoalBreak \<or> fst ?r = BoundsBreak")
    case True
    then have "1 \<le> n" using n by (auto simp: loop_post_def)
    then have "Suc (n - 1) = n" by simp
    then show ?thesis using n True
      by (simp add: loop_post_def stateAfter_shift)
  next
    case False
    then show ?thesis using n
      by (simp add: loop_post_def stateAfter_shift)
  qed
  have last: "if fst ?r = LoopEnd then Suc n = nat (maxSteps pr - i) else 1 \<le> Suc n"
    using n Continue(1) by (auto simp: loop_post_def split: if_splits)
  have passed: "\<not> atGoal pr (fst (stateAfter ms (dt pr) k ?pv))
       \<and> \<not> outsideBounds (bounds_of pr) (fst (stateAfter ms (dt pr) k ?pv))"
    if k: "k < (if fst ?r = GoalBreak \<or> fst ?r = BoundsBreak then Suc n - 1 else Suc n)" for k
  proof (cases k)
    case 0
    then show ?thesis using Continue(2,3) by simp
  next
    case (Suc j)
    have "1 \<le> n" if "fst ?r = GoalBreak \<or> fst ?r = BoundsBreak"
      using n that by (auto simp: loop_post_def)
    then have "j < (if fst ?r = GoalBreak \<or> fst ?r = BoundsBreak then n - 1 else n)"
      using k Suc by (auto split: if_splits)
    then show ?thesis
      using n Suc by (simp add: loop_post_def stateAfter_shift)
  qed
  show ?case
    unfolding loop_post_def using eq le fin last passed
    by (intro exI [of _ "Suc n"]) simp
qed

lemma loop_flags:
  "flag_reachedGoal (snd (trajectory_loop ms pr i st)) =
     (flag_reachedGoal st \<or> fst (trajectory_loop ms pr i st) = GoalBreak)
   \<and> flag_outOfBounds (snd (trajectory_loop ms pr i st)) =
     (flag_outOfBounds st \<or> fst (trajectory_loop ms pr i st) = BoundsBreak)"
proof (induction i st rule: loop_induct [where ms = ms and pr = pr])
  case (End i st)
  then show ?case by (simp add: loop_end)
next
  case (Goal i st)
  then show ?case by (simp add: loop_goal)
next
  case (Bounds i st)
  then show ?case by (simp add: loop_bounds)
next
  case (Close i st)
  then show ?case by (simp add: loop_close)
next
  case (Continue i st)
  then show ?case by (simp add: loop_continue)
qed

lemma loop_exit_position:
  "(case fst (trajectory_loop ms pr i st) of
      GoalBreak \<Rightarrow> atGoal pr (cur_pos (snd (trajectory_loop ms pr i st)))
    | BoundsBreak \<Rightarrow> \<not> atGoal pr (cur_pos (snd (trajectory_loop ms pr i st)))
          \<and> outsideBounds (bounds_of pr) (cur_pos (snd (trajectory_loop ms pr i st)))
    | TooCloseBreak \<Rightarrow> tooClose ms (cur_pos (snd (trajectory_loop ms pr i st)))
    | LoopEnd \<Rightarrow> i < maxSteps pr \<or> \<not> tooClose ms (cur_pos st) \<longrightarrow>
          \<not> tooClose ms (cur_pos (snd (trajectory_loop ms pr i st))))"
proof (induction i st rule: loop_induct [where ms = ms and pr = pr])
  case (End i st)
  then show ?case by (simp add: loop_end)
next
  case (Goal i st)
  then show ?case by (simp add: loop_goal)
next
  case (Bounds i st)
  then show ?case by (simp add: loop_bounds)
next
  case (Close i st)
  then show ?case by (simp add: loop_close)
next
  case (Continue i st)
  then show ?case by (simp add: loop_continue split: loop_exit.splits)
qed

section \<open>A whole call of computeTrajectory\<close>

lemma run_post:
  "\<exists>n. loop_post ms (resolveOptions opts) 0 (initialState startPos startVel)
          (runLoop ms startPos startVel opts) n"
  unfolding runLoop_def by (rule loop_trajectory)

lemma run_points:
  "points (computeTrajectory ms startPos startVel opts) =
     samples ms (dt (resolveOptions opts)) (startPos, startVel)
       (length (points (computeTrajectory ms startPos startVel opts)))"
proof -
  obtain n where "loop_post ms (resolveOptions opts) 0 (initialState startPos startVel)
          (runLoop ms startPos startVel opts) n"
    using run_post by blast
  then show ?thesis
    by (simp add: loop_post_def computeTrajectory_def initialState_def Let_def)
qed

lemma run_length:
  "length (points (computeTrajectory ms startPos startVel opts)) \<le> nat (maxSteps (resolveOptions opts))
   \<and> (0 < maxSteps (resolveOptions opts) \<longrightarrow>
        1 \<le> length (points (computeTrajectory ms startPos startVel opts)))"
proof -
  obtain n where "loop_post ms (resolveOptions opts) 0 (initialState startPos startVel)
          (runLoop ms startPos startVel opts) n"
    using run_post by blast
  then show ?thesis
    by (auto simp add: loop_post_def computeTrajectory_def initialState_def Let_def split: if_splits)
qed

lemma run_final:
  "(finalPos (computeTrajectory ms startPos startVel opts),
    cur_vel (snd (runLoop ms startPos startVel opts))) =
     stateAfter ms (dt (resolveOptions opts))
       (if exitOf ms startPos startVel opts = GoalBreak \<or> exitOf ms startPos startVel opts = BoundsBreak
        then length (points (computeTrajectory ms startPos startVel opts)) - 1
        else length (points (computeTrajectory ms startPos startVel opts)))
       (startPos, startVel)"
proof -
  obtain n where "loop_post ms (resolveOptions opts) 0 (initialState startPos startVel)
          (runLoop ms startPos startVel opts) n"
    using run_post by blast
  then show ?thesis
    by (simp add: loop_post_def computeTrajectory_def initialState_def Let_def exitOf_def)
qed

lemma run_flags:
  "reachedGoal (computeTrajectory ms startPos startVel opts) =
     (exitOf ms startPos startVel opts = GoalBreak)
   \<and> outOfBounds (computeTrajectory ms startPos startVel opts) =
     (exitOf ms startPos startVel opts = BoundsBreak)"
  using loop_flags [where ms = ms and pr = "resolveOptions opts" and i = 0
      and st = "initialState startPos startVel"]
  by (simp add: computeTrajectory_def exitOf_def runLoop_def Let_def initialState_def)

lemma run_exit_position:
  "(case exitOf ms startPos startVel opts of
      GoalBreak \<Rightarrow> atGoal (resolveOptions opts) (finalPos (computeTrajectory ms startPos startVel opts))
    | BoundsBreak \<Rightarrow>
        \<not> atGoal (resolveOptions opts) (finalPos (computeTrajectory ms startPos startVel opts))
        \<and> outsideBounds (bounds_of (resolveOptions opts))
            (finalPos (computeTrajectory ms startPos startVel opts))
    | TooCloseBreak \<Rightarrow> tooClose ms (finalPos (computeTrajectory ms startPos startVel opts))
    | LoopEnd \<Rightarrow> 0 < maxSteps (resolveOptions opts) \<longrightarrow>
          \<not> tooClose ms (finalPos (computeTrajectory ms startPos startVel opts)))"
  using loop_exit_position [where ms = ms and pr = "resolveOptions opts" and i = 0
      and st = "initialState startPos startVel"]
  by (simp add: computeTrajectory_def exitOf_def runLoop_def Let_def split: loop_exit.splits)


text \<open>Runs used as examples.\<close>

lemma integrateRK4_zero_step: "integrateRK4 ms p v 0 = \<lparr>res_pos = p, res_vel = v\<rparr>"
  by (simp add: integrateRK4_def Let_def scale2D_def add2D_def)

lemma totalAcceleration_Nil [simp]: "totalAcceleration [] p v = \<lparr>vec_x = 0, vec_y = 0\<rparr>"
  by (simp add: totalAcceleration_def geodesicAcceleration_def computeEffectiveGravity_def
        computeGradient_def Let_def)

lemma integrateRK4_Nil:
  "integrateRK4 [] p v h =
     \<lparr>res_pos = \<lparr>vec_x = vec_x p + vec_x v * h, vec_y = vec_y p + vec_y v * h\<rparr>, res_vel = v\<rparr>"
  by (simp add: integrateRK4_def Let_def scale2D_def add2D_def)

lemma resolve_oneStepOptions:
  "resolveOptions (oneStepOptions h) =
     \<lparr>maxSteps = 1, dt = h, bounds_of = \<lparr>minX = -5, maxX = 5, minY = -5, maxY = 5\<rparr>,
      goalPos = None, goalRadius = 3/10\<rparr>"
  by (simp add: resolveOptions_def oneStepOptions_def)


lemma origin_inside:
  "\<not> outsideBounds \<lparr>minX = -5, maxX = 5, minY = -5, maxY = 5\<rparr> \<lparr>vec_x = 0, vec_y = 0\<rparr>"
  by (simp add: outsideBounds_def)

lemma run_captured_at_centre:
  "runLoop [\<lparr>mass_x = 0, mass_y = 0, strength = 3/2\<rparr>] \<lparr>vec_x = 0, vec_y = 0\<rparr> \<lparr>vec_x = 0, vec_y = 0\<rparr>
      (oneStepOptions 0) =
   (TooCloseBreak, \<lparr>trajectory = [\<lparr>pt_x = 0, pt_y = 0, pt_z = -3\<rparr>],
       cur_pos = \<lparr>vec_x = 0, vec_y = 0\<rparr>, cur_vel = \<lparr>vec_x = 0, vec_y = 0\<rparr>,
       flag_reachedGoal = False, flag_outOfBounds = False\<rparr>)"
  unfolding runLoop_def resolve_oneStepOptions
  by (subst loop_close)
     (simp_all add: atGoal_def origin_inside initialState_def stepped_def recorded_def
        integrateRK4_zero_step length2D_def samplePoint_def gravitationalHeight_def)

lemma run_rest_flat:
  "runLoop [] \<lparr>vec_x = 0, vec_y = 0\<rparr> \<lparr>vec_x = 0, vec_y = 0\<rparr> (oneStepOptions (1/100)) =
   (LoopEnd, \<lparr>trajectory = [\<lparr>pt_x = 0, pt_y = 0, pt_z = 0\<rparr>],
       cur_pos = \<lparr>vec_x = 0, vec_y = 0\<rparr>, cur_vel = \<lparr>vec_x = 0, vec_y = 0\<rparr>,
       flag_reachedGoal = False, flag_outOfBounds = False\<rparr>)"
  unfolding runLoop_def resolve_oneStepOptions
  by (subst loop_continue)
     (simp_all add: atGoal_def origin_inside initialState_def stepped_def recorded_def loop_end
        integrateRK4_Nil samplePoint_def)

lemma run_moving_flat:
  "runLoop [] \<lparr>vec_x = 0, vec_y = 0\<rparr> \<lparr>vec_x = 1, vec_y = 0\<rparr> (oneStepOptions (1/100)) =
   (LoopEnd, \<lparr>trajectory = [\<lparr>pt_x = 0, pt_y = 0, pt_z = 0\<rparr>],
       cur_pos = \<lparr>vec_x = 1/100, vec_y = 0\<rparr>, cur_vel = \<lparr>vec_x = 1, vec_y = 0\<rparr>,
       flag_reachedGoal = False, flag_outOfBounds = False\<rparr>)"
  unfolding runLoop_def resolve_oneStepOptions
  by (subst loop_continue)
     (simp_all add: atGoal_def origin_inside initialState_def stepped_def recorded_def loop_end
        integrateRK4_Nil samplePoint_def)

text \<open>Runs in a flat field: masses of strength 0.\<close>

lemma length2D_on_axis: "length2D \<lparr>vec_x = a, vec_y = 0\<rparr> = \<bar>a\<bar>"
  by (simp add: length2D_def)

lemma height_zero_strength:
  "gravitationalHeight [\<lparr>mass_x = a, mass_y = b, strength = 0\<rparr>] x y = 0"
  by (simp add: gravitationalHeight_def)

lemma totalAcceleration_flat:
  assumes "\<And>x y. gravitationalHeight ms x y = 0"
  shows "totalAcceleration ms p v = \<lparr>vec_x = 0, vec_y = 0\<rparr>"
proof -
  have gr: "computeGradient ms x y eps = \<lparr>dzdx = 0, dzdy = 0\<rparr>" for x y eps
    by (simp add: computeGradient_def assms)
  have me: "computeMetric ms x y = \<lparr>g11 = 1, g12 = 0, g21 = 0, g22 = 1\<rparr>" for x y
    by (simp add: computeMetric_def gr)
  have ch: "computeChristoffel ms x y eps = \<lparr>G111 = 0, G112 = 0, G122 = 0, G211 = 0, G212 = 0, G222 = 0\<rparr>"
    for x y eps
    by (simp add: computeChristoffel_def me)
  show ?thesis
    by (simp add: totalAcceleration_def geodesicAcceleration_def computeEffectiveGravity_def
          gr ch Let_def)
qed

lemma integrateRK4_flat:
  assumes "\<And>x y. gravitationalHeight ms x y = 0"
  shows "integrateRK4 ms p v h =
     \<lparr>res_pos = \<lparr>vec_x = vec_x p + vec_x v * h, vec_y = vec_y p + vec_y v * h\<rparr>, res_vel = v\<rparr>"
  by (simp add: integrateRK4_def Let_def scale2D_def add2D_def totalAcceleration_flat [OF assms])

lemma start_inside:
  "\<not> outsideBounds \<lparr>minX = -5, maxX = 5, minY = -5, maxY = 5\<rparr> \<lparr>vec_x = - (61/200), vec_y = 0\<rparr>"
  by (simp add: outsideBounds_def)

lemma run_captured_zero_strength:
  "runLoop [\<lparr>mass_x = 0, mass_y = 0, strength = 0\<rparr>] \<lparr>vec_x = - (61/200), vec_y = 0\<rparr>
      \<lparr>vec_x = 1, vec_y = 0\<rparr> (oneStepOptions (1/100)) =
   (TooCloseBreak, \<lparr>trajectory = [\<lparr>pt_x = - (61/200), pt_y = 0, pt_z = 0\<rparr>],
       cur_pos = \<lparr>vec_x = - (59/200), vec_y = 0\<rparr>, cur_vel = \<lparr>vec_x = 1, vec_y = 0\<rparr>,
       flag_reachedGoal = False, flag_outOfBounds = False\<rparr>)"
  unfolding runLoop_def resolve_oneStepOptions
  by (subst loop_close)
     (simp_all add: atGoal_def start_inside initialState_def stepped_def recorded_def
        integrateRK4_flat height_zero_strength length2D_on_axis samplePoint_def)

lemma run_exhausted_zero_strength:
  "runLoop [\<lparr>mass_x = 3, mass_y = 0, strength = 0\<rparr>] \<lparr>vec_x = - (61/200), vec_y = 0\<rparr>
      \<lparr>vec_x = 1, vec_y = 0\<rparr> (oneStepOptions (1/100)) =
   (LoopEnd, \<lparr>trajectory = [\<lparr>pt_x = - (61/200), pt_y = 0, pt_z = 0\<rparr>],
       cur_pos = \<lparr>vec_x = - (59/200), vec_y = 0\<rparr>, cur_vel = \<lparr>vec_x = 1, vec_y = 0\<rparr>,
       flag_reachedGoal = False, flag_outOfBounds = False\<rparr>)"
  unfolding runLoop_def resolve_oneStepOptions
  by (subst loop_continue)
     (simp_all add: atGoal_def start_inside initialState_def stepped_def recorded_def loop_end
        integrateRK4_flat height_zero_strength length2D_on_axis samplePoint_def)

lemma tooClose_iff:
  "tooClose ms p =
     (\<exists>m \<in> set ms. sqrt ((vec_x p - mass_x m)\<^sup>2 + (vec_y p - mass_y m)\<^sup>2) < 3/10)"
  by (induction ms) (auto simp: length2D_def power2_eq_square)


lemma run_exit_count:
  "(exitOf ms startPos startVel opts = LoopEnd \<longrightarrow>
      length (points (computeTrajectory ms startPos startVel opts)) = nat (maxSteps (resolveOptions opts)))
   \<and> (exitOf ms startPos startVel opts \<noteq> LoopEnd \<longrightarrow>
      1 \<le> length (points (computeTrajectory ms startPos startVel opts)))"
proof -
  obtain n where "loop_post ms (resolveOptions opts) 0 (initialState startPos startVel)
          (runLoop ms startPos startVel opts) n"
    using run_post by blast
  then show ?thesis
    by (auto simp add: loop_post_def computeTrajectory_def initialState_def Let_def exitOf_def
          split: if_splits)
qed


section \<open>Order of the checks, termination and the returned object\<close>



text \<open>
  C4, as amended. For \<open>maxSteps \<ge> 1\<close>: a run that stops because the position after the
  step is within \<open>0.3\<close> of a mass returns \<open>reachedGoal = false\<close> and \<open>outOfBounds = false\<close>,
  the same flags as a run that exhausts \<open>maxSteps\<close>; the result consists of \<open>points\<close>,
  \<open>reachedGoal\<close>, \<open>outOfBounds\<close> and \<open>finalPos\<close> and has no field that reports the capture.
  The flags tell Success and OutOfBounds from the other two outcomes. Capture can be
  inferred in two ways: an exhausted run returns exactly \<open>maxSteps\<close> points and a captured
  run between 1 and \<open>maxSteps\<close> points, so both flags false with fewer than \<open>maxSteps\<close>
  points means captured; and the run was captured exactly when both flags are false and
  \<open>finalPos\<close> is within \<open>0.3\<close> of some mass.
\<close>

theorem capture_shares_flags_with_exhaustion:
  assumes "0 < maxSteps (resolveOptions opts)"
  shows "(exitOf ms startPos startVel opts = TooCloseBreak \<longrightarrow>
            \<not> reachedGoal (computeTrajectory ms startPos startVel opts)
            \<and> \<not> outOfBounds (computeTrajectory ms startPos startVel opts)
            \<and> 1 \<le> length (points (computeTrajectory ms startPos startVel opts))
            \<and> length (points (computeTrajectory ms startPos startVel opts))
                \<le> nat (maxSteps (resolveOptions opts)))
     \<and> (exitOf ms startPos startVel opts = LoopEnd \<longrightarrow>
            \<not> reachedGoal (computeTrajectory ms startPos startVel opts)
            \<and> \<not> outOfBounds (computeTrajectory ms startPos startVel opts)
            \<and> length (points (computeTrajectory ms startPos startVel opts))
                = nat (maxSteps (resolveOptions opts)))
     \<and> (exitOf ms startPos startVel opts = GoalBreak) =
          reachedGoal (computeTrajectory ms startPos startVel opts)
     \<and> (exitOf ms startPos startVel opts = BoundsBreak) =
          outOfBounds (computeTrajectory ms startPos startVel opts)
     \<and> (\<not> reachedGoal (computeTrajectory ms startPos startVel opts)
          \<and> \<not> outOfBounds (computeTrajectory ms startPos startVel opts)
          \<and> length (points (computeTrajectory ms startPos startVel opts))
               < nat (maxSteps (resolveOptions opts))
          \<longrightarrow> exitOf ms startPos startVel opts = TooCloseBreak)
     \<and> (exitOf ms startPos startVel opts = TooCloseBreak) =
          (\<not> reachedGoal (computeTrajectory ms startPos startVel opts)
           \<and> \<not> outOfBounds (computeTrajectory ms startPos startVel opts)
           \<and> tooClose ms (finalPos (computeTrajectory ms startPos startVel opts)))
     \<and> tooClose ms p =
          (\<exists>m \<in> set ms. sqrt ((vec_x p - mass_x m)\<^sup>2 + (vec_y p - mass_y m)\<^sup>2) < 3/10)
     \<and> computeTrajectory ms startPos startVel opts =
          \<lparr>points = points (computeTrajectory ms startPos startVel opts),
           reachedGoal = reachedGoal (computeTrajectory ms startPos startVel opts),
           outOfBounds = outOfBounds (computeTrajectory ms startPos startVel opts),
           finalPos = finalPos (computeTrajectory ms startPos startVel opts)\<rparr>"
proof -
  let ?e = "exitOf ms startPos startVel opts"
  let ?r = "computeTrajectory ms startPos startVel opts"
  note fl = run_flags [where ms = ms and startPos = startPos and startVel = startVel and opts = opts]
  note ep = run_exit_position [where ms = ms and startPos = startPos and startVel = startVel
      and opts = opts]
  note ct = run_exit_count [where ms = ms and startPos = startPos and startVel = startVel
      and opts = opts]
  note ln = run_length [where ms = ms and startPos = startPos and startVel = startVel and opts = opts]
  have main: "(?e = TooCloseBreak \<longrightarrow> \<not> reachedGoal ?r \<and> \<not> outOfBounds ?r
        \<and> 1 \<le> length (points ?r) \<and> length (points ?r) \<le> nat (maxSteps (resolveOptions opts)))
     \<and> (?e = LoopEnd \<longrightarrow> \<not> reachedGoal ?r \<and> \<not> outOfBounds ?r
        \<and> length (points ?r) = nat (maxSteps (resolveOptions opts)))
     \<and> (?e = GoalBreak) = reachedGoal ?r
     \<and> (?e = BoundsBreak) = outOfBounds ?r
     \<and> (\<not> reachedGoal ?r \<and> \<not> outOfBounds ?r
          \<and> length (points ?r) < nat (maxSteps (resolveOptions opts)) \<longrightarrow> ?e = TooCloseBreak)
     \<and> (?e = TooCloseBreak) = (\<not> reachedGoal ?r \<and> \<not> outOfBounds ?r \<and> tooClose ms (finalPos ?r))"
  proof (cases ?e)
    case GoalBreak
    then show ?thesis using fl by simp
  next
    case BoundsBreak
    then show ?thesis using fl by simp
  next
    case TooCloseBreak
    then show ?thesis using fl ep ct ln by simp
  next
    case LoopEnd
    then show ?thesis using assms fl ep ct by simp
  qed
  have fields: "?r = \<lparr>points = points ?r, reachedGoal = reachedGoal ?r,
      outOfBounds = outOfBounds ?r, finalPos = finalPos ?r\<rparr>"
    by simp
  show ?thesis
    using main tooClose_iff [of ms p] fields by blast
qed

theorem capture_shares_flags_with_exhaustion_witness:
  "0 < maxSteps (resolveOptions (oneStepOptions (1/100)))
   \<and> exitOf [\<lparr>mass_x = 0, mass_y = 0, strength = 0\<rparr>] \<lparr>vec_x = - (61/200), vec_y = 0\<rparr>
        \<lparr>vec_x = 1, vec_y = 0\<rparr> (oneStepOptions (1/100)) = TooCloseBreak
   \<and> \<not> reachedGoal (computeTrajectory [\<lparr>mass_x = 0, mass_y = 0, strength = 0\<rparr>]
        \<lparr>vec_x = - (61/200), vec_y = 0\<rparr> \<lparr>vec_x = 1, vec_y = 0\<rparr> (oneStepOptions (1/100)))
   \<and> \<not> outOfBounds (computeTrajectory [\<lparr>mass_x = 0, mass_y = 0, strength = 0\<rparr>]
        \<lparr>vec_x = - (61/200), vec_y = 0\<rparr> \<lparr>vec_x = 1, vec_y = 0\<rparr> (oneStepOptions (1/100)))
   \<and> tooClose [\<lparr>mass_x = 0, mass_y = 0, strength = 0\<rparr>]
        (finalPos (computeTrajectory [\<lparr>mass_x = 0, mass_y = 0, strength = 0\<rparr>]
           \<lparr>vec_x = - (61/200), vec_y = 0\<rparr> \<lparr>vec_x = 1, vec_y = 0\<rparr> (oneStepOptions (1/100))))"
proof -
  have m: "0 < maxSteps (resolveOptions (oneStepOptions (1/100)))"
    by (simp add: resolve_oneStepOptions)
  have e: "exitOf [\<lparr>mass_x = 0, mass_y = 0, strength = 0\<rparr>] \<lparr>vec_x = - (61/200), vec_y = 0\<rparr>
        \<lparr>vec_x = 1, vec_y = 0\<rparr> (oneStepOptions (1/100)) = TooCloseBreak"
    by (simp add: exitOf_def run_captured_zero_strength)
  let ?ms = "[\<lparr>mass_x = 0, mass_y = 0, strength = 0\<rparr>]"
  let ?r = "computeTrajectory ?ms \<lparr>vec_x = - (61/200), vec_y = 0\<rparr> \<lparr>vec_x = 1, vec_y = 0\<rparr>
      (oneStepOptions (1/100))"
  have "\<not> reachedGoal ?r \<and> \<not> outOfBounds ?r \<and> tooClose ?ms (finalPos ?r)"
    using capture_shares_flags_with_exhaustion [OF m, of ?ms
        "\<lparr>vec_x = - (61/200), vec_y = 0\<rparr>" "\<lparr>vec_x = 1, vec_y = 0\<rparr>" "finalPos ?r"] e
    by blast
  then show ?thesis
    using m e by blast
qed

text \<open>
  C4 as stated fails: a captured run and an exhausted run can return the same object.
  With one mass of strength 0, start \<open>(-0.305, 0)\<close>, velocity \<open>(1, 0)\<close>, \<open>maxSteps = 1\<close>
  and \<open>dt = 0.01\<close>, both runs return the points \<open>[(-0.305, 0, 0)]\<close>, both flags false and
  \<open>finalPos = (-0.295, 0)\<close>; the first was stopped by the capture test (mass at the
  origin), the second ran out of steps (mass at \<open>(3, 0)\<close>).
\<close>

theorem capture_indistinguishable_counterexample:
  "exitOf [\<lparr>mass_x = 0, mass_y = 0, strength = 0\<rparr>] \<lparr>vec_x = - (61/200), vec_y = 0\<rparr>
      \<lparr>vec_x = 1, vec_y = 0\<rparr> (oneStepOptions (1/100)) = TooCloseBreak
   \<and> exitOf [\<lparr>mass_x = 3, mass_y = 0, strength = 0\<rparr>] \<lparr>vec_x = - (61/200), vec_y = 0\<rparr>
      \<lparr>vec_x = 1, vec_y = 0\<rparr> (oneStepOptions (1/100)) = LoopEnd
   \<and> computeTrajectory [\<lparr>mass_x = 0, mass_y = 0, strength = 0\<rparr>] \<lparr>vec_x = - (61/200), vec_y = 0\<rparr>
        \<lparr>vec_x = 1, vec_y = 0\<rparr> (oneStepOptions (1/100))
     = computeTrajectory [\<lparr>mass_x = 3, mass_y = 0, strength = 0\<rparr>] \<lparr>vec_x = - (61/200), vec_y = 0\<rparr>
        \<lparr>vec_x = 1, vec_y = 0\<rparr> (oneStepOptions (1/100))
   \<and> computeTrajectory [\<lparr>mass_x = 0, mass_y = 0, strength = 0\<rparr>] \<lparr>vec_x = - (61/200), vec_y = 0\<rparr>
        \<lparr>vec_x = 1, vec_y = 0\<rparr> (oneStepOptions (1/100))
     = \<lparr>points = [\<lparr>pt_x = - (61/200), pt_y = 0, pt_z = 0\<rparr>], reachedGoal = False,
        outOfBounds = False, finalPos = \<lparr>vec_x = - (59/200), vec_y = 0\<rparr>\<rparr>"
  by (simp add: exitOf_def computeTrajectory_def run_captured_zero_strength run_exhausted_zero_strength)

text \<open>
  C5. For every start position, start velocity and options with a positive integer
  \<open>maxSteps\<close>, \<open>computeTrajectory\<close> returns (the loop is a total function: its counter
  runs from 0 up to \<open>maxSteps\<close>), and the points it returns form a finite sequence of at
  least one and at most \<open>maxSteps\<close> points, hence at most \<open>maxSteps + 1\<close>, in the order of
  the iterations: point number \<open>k\<close> is the sample taken after \<open>k\<close> RK4 steps.
\<close>

theorem computeTrajectory_bounded:
  assumes "opt_maxSteps opts = Some n" and "0 < n"
  shows "1 \<le> length (points (computeTrajectory ms startPos startVel opts))
     \<and> length (points (computeTrajectory ms startPos startVel opts)) \<le> nat n
     \<and> length (points (computeTrajectory ms startPos startVel opts)) \<le> nat n + 1
     \<and> points (computeTrajectory ms startPos startVel opts) =
         samples ms (dt (resolveOptions opts)) (startPos, startVel)
           (length (points (computeTrajectory ms startPos startVel opts)))"
proof -
  have m: "maxSteps (resolveOptions opts) = n"
    using assms(1) by (simp add: resolveOptions_def)
  show ?thesis
    using run_length [of ms startPos startVel opts] run_points [of ms startPos startVel opts] assms(2)
    unfolding m by simp
qed

theorem computeTrajectory_bounded_witness:
  "opt_maxSteps (oneStepOptions (1/100)) = Some 1
   \<and> length (points (computeTrajectory [] \<lparr>vec_x = 0, vec_y = 0\<rparr> \<lparr>vec_x = 1, vec_y = 0\<rparr>
        (oneStepOptions (1/100)))) = 1
   \<and> points (computeTrajectory [] \<lparr>vec_x = 0, vec_y = 0\<rparr> \<lparr>vec_x = 1, vec_y = 0\<rparr>
        (oneStepOptions (1/100))) = [\<lparr>pt_x = 0, pt_y = 0, pt_z = 0\<rparr>]"
proof -
  let ?r = "computeTrajectory [] \<lparr>vec_x = 0, vec_y = 0\<rparr> \<lparr>vec_x = 1, vec_y = 0\<rparr> (oneStepOptions (1/100))"
  have m: "opt_maxSteps (oneStepOptions (1/100)) = Some 1"
    by (simp add: oneStepOptions_def)
  have *: "1 \<le> length (points ?r) \<and> length (points ?r) \<le> nat 1
      \<and> points ?r = samples [] (dt (resolveOptions (oneStepOptions (1/100))))
           (\<lparr>vec_x = 0, vec_y = 0\<rparr>, \<lparr>vec_x = 1, vec_y = 0\<rparr>) (length (points ?r))"
    using computeTrajectory_bounded [OF m, of "[]" "\<lparr>vec_x = 0, vec_y = 0\<rparr>" "\<lparr>vec_x = 1, vec_y = 0\<rparr>"]
    by simp
  then have len: "length (points ?r) = 1" by simp
  then have "points ?r = [\<lparr>pt_x = 0, pt_y = 0, pt_z = 0\<rparr>]"
    using * by (simp add: samplePoint_def)
  then show ?thesis using m len by simp
qed

text \<open>
  C6. \<open>computeTrajectory\<close> is deterministic and retains no state: a call returns the
  module state it was given, a second call with the same arguments returns the same
  object (points, flags and final position), and so does a call in any module state with
  the same mass configuration.
\<close>

theorem computeTrajectory_deterministic:
  assumes "computeTrajectory_call startPos startVel opts s = (r, s')"
  shows "s' = s \<and> computeTrajectory_call startPos startVel opts s' = (r, s')
     \<and> (\<forall>t. masses t = masses s \<longrightarrow> fst (computeTrajectory_call startPos startVel opts t) = r)"
  using assms by (auto simp: computeTrajectory_call_def)

theorem computeTrajectory_deterministic_witness:
  "computeTrajectory_call \<lparr>vec_x = 0, vec_y = 0\<rparr> \<lparr>vec_x = 1, vec_y = 0\<rparr> (oneStepOptions (1/100))
      \<lparr>masses = []\<rparr>
     = (computeTrajectory [] \<lparr>vec_x = 0, vec_y = 0\<rparr> \<lparr>vec_x = 1, vec_y = 0\<rparr> (oneStepOptions (1/100)),
        \<lparr>masses = []\<rparr>)
   \<and> fst (computeTrajectory_call \<lparr>vec_x = 0, vec_y = 0\<rparr> \<lparr>vec_x = 1, vec_y = 0\<rparr>
        (oneStepOptions (1/100)) (setMasses [] \<lparr>masses = [\<lparr>mass_x = 0, mass_y = 0, strength = 1\<rparr>]\<rparr>))
     = computeTrajectory [] \<lparr>vec_x = 0, vec_y = 0\<rparr> \<lparr>vec_x = 1, vec_y = 0\<rparr> (oneStepOptions (1/100))"
proof -
  have c: "computeTrajectory_call \<lparr>vec_x = 0, vec_y = 0\<rparr> \<lparr>vec_x = 1, vec_y = 0\<rparr> (oneStepOptions (1/100))
      \<lparr>masses = []\<rparr>
     = (computeTrajectory [] \<lparr>vec_x = 0, vec_y = 0\<rparr> \<lparr>vec_x = 1, vec_y = 0\<rparr> (oneStepOptions (1/100)),
        \<lparr>masses = []\<rparr>)"
    by (simp add: computeTrajectory_call_def)
  show ?thesis
    using computeTrajectory_deterministic [OF c] c by (simp add: setMasses_def)
qed

text \<open>
  C10, as amended. With \<open>maxSteps \<ge> 1\<close>: when the run ends by reaching the goal or by
  leaving the bounds, \<open>finalPos\<close> equals the \<open>(x, y)\<close> of the last recorded point; when it
  ends by mass capture or by exhausting \<open>maxSteps\<close>, \<open>finalPos\<close> is the position one RK4
  step beyond the last recorded point, and that position is not pushed onto \<open>points\<close>:
  the \<open>n\<close> points are the samples after \<open>0, ..., n - 1\<close> steps and \<open>finalPos\<close> is the
  position after \<open>n\<close> steps. (Its coordinates may still be those of a recorded point.)
\<close>

theorem finalPos_relation:
  assumes "0 < maxSteps (resolveOptions opts)"
  shows "points (computeTrajectory ms startPos startVel opts) \<noteq> []
     \<and> points (computeTrajectory ms startPos startVel opts) =
         samples ms (dt (resolveOptions opts)) (startPos, startVel)
           (length (points (computeTrajectory ms startPos startVel opts)))
     \<and> (exitOf ms startPos startVel opts = GoalBreak \<or> exitOf ms startPos startVel opts = BoundsBreak \<longrightarrow>
          last (points (computeTrajectory ms startPos startVel opts)) =
            samplePoint ms (finalPos (computeTrajectory ms startPos startVel opts))
          \<and> pt_x (last (points (computeTrajectory ms startPos startVel opts))) =
              vec_x (finalPos (computeTrajectory ms startPos startVel opts))
          \<and> pt_y (last (points (computeTrajectory ms startPos startVel opts))) =
              vec_y (finalPos (computeTrajectory ms startPos startVel opts)))
     \<and> (exitOf ms startPos startVel opts = TooCloseBreak \<or> exitOf ms startPos startVel opts = LoopEnd \<longrightarrow>
          last (points (computeTrajectory ms startPos startVel opts)) =
            samplePoint ms (fst (stateAfter ms (dt (resolveOptions opts))
              (length (points (computeTrajectory ms startPos startVel opts)) - 1) (startPos, startVel)))
          \<and> finalPos (computeTrajectory ms startPos startVel opts) =
            fst (rk4_step ms (dt (resolveOptions opts))
              (stateAfter ms (dt (resolveOptions opts))
                (length (points (computeTrajectory ms startPos startVel opts)) - 1) (startPos, startVel)))
          \<and> finalPos (computeTrajectory ms startPos startVel opts) =
            fst (stateAfter ms (dt (resolveOptions opts))
              (length (points (computeTrajectory ms startPos startVel opts))) (startPos, startVel)))"
proof -
  let ?r = "computeTrajectory ms startPos startVel opts"
  let ?n = "length (points ?r)"
  let ?h = "dt (resolveOptions opts)"
  have "1 \<le> ?n"
    using run_length [of ms startPos startVel opts] assms by blast
  then have pos: "0 < ?n" by linarith
  then have ne: "points ?r \<noteq> []" by auto
  have pts: "points ?r = samples ms ?h (startPos, startVel) ?n"
    by (rule run_points)
  have lst: "last (points ?r) = samplePoint ms (fst (stateAfter ms ?h (?n - 1) (startPos, startVel)))"
    using samples_last [OF pos, of ms ?h "(startPos, startVel)"] pts by simp
  have fin: "finalPos ?r = fst (stateAfter ms ?h
       (if exitOf ms startPos startVel opts = GoalBreak \<or> exitOf ms startPos startVel opts = BoundsBreak
        then ?n - 1 else ?n) (startPos, startVel))"
    using run_final [of ms startPos startVel opts] by (auto dest: arg_cong [where f = fst])
  have suc: "stateAfter ms ?h ?n (startPos, startVel) =
      rk4_step ms ?h (stateAfter ms ?h (?n - 1) (startPos, startVel))"
    using pos stateAfter_Suc [of ms ?h "?n - 1" "(startPos, startVel)"] by simp
  have xy: "pt_x (samplePoint ms p) = vec_x p \<and> pt_y (samplePoint ms p) = vec_y p" for p
    by (simp add: samplePoint_def)
  show ?thesis
    using ne pts lst fin suc xy by (cases "exitOf ms startPos startVel opts") simp_all
qed

theorem finalPos_relation_witness:
  "0 < maxSteps (resolveOptions (oneStepOptions (1/100)))
   \<and> exitOf [] \<lparr>vec_x = 0, vec_y = 0\<rparr> \<lparr>vec_x = 1, vec_y = 0\<rparr> (oneStepOptions (1/100)) = LoopEnd
   \<and> last (points (computeTrajectory [] \<lparr>vec_x = 0, vec_y = 0\<rparr> \<lparr>vec_x = 1, vec_y = 0\<rparr>
        (oneStepOptions (1/100)))) = \<lparr>pt_x = 0, pt_y = 0, pt_z = 0\<rparr>
   \<and> finalPos (computeTrajectory [] \<lparr>vec_x = 0, vec_y = 0\<rparr> \<lparr>vec_x = 1, vec_y = 0\<rparr>
        (oneStepOptions (1/100)))
     = fst (rk4_step [] (1/100) (\<lparr>vec_x = 0, vec_y = 0\<rparr>, \<lparr>vec_x = 1, vec_y = 0\<rparr>))"
proof -
  let ?p = "\<lparr>vec_x = 0, vec_y = 0\<rparr>" and ?v = "\<lparr>vec_x = 1, vec_y = 0\<rparr>"
  have m: "0 < maxSteps (resolveOptions (oneStepOptions (1/100)))"
    by (simp add: resolve_oneStepOptions)
  have e: "exitOf [] ?p ?v (oneStepOptions (1/100)) = LoopEnd"
    by (simp add: exitOf_def run_moving_flat)
  have n: "length (points (computeTrajectory [] ?p ?v (oneStepOptions (1/100)))) = 1"
    by (simp add: computeTrajectory_def run_moving_flat)
  have d: "dt (resolveOptions (oneStepOptions (1/100))) = 1/100"
    by (simp add: resolve_oneStepOptions)
  show ?thesis
    using finalPos_relation [OF m, of "[]" ?p ?v] m e
    unfolding n d by (simp add: samplePoint_def)
qed

text \<open>
  C10 as stated fails: a particle at rest with no masses, \<open>maxSteps = 1\<close>. The run
  exhausts its steps, and \<open>finalPos = (0, 0)\<close> appears in the points sequence as the
  \<open>(x, y)\<close> of its only point. The same happens after a capture when the step does not
  move the particle (a mass of strength 1.5 at the start, \<open>dt = 0\<close>).
\<close>

theorem finalPos_recorded_counterexample:
  "exitOf [] \<lparr>vec_x = 0, vec_y = 0\<rparr> \<lparr>vec_x = 0, vec_y = 0\<rparr> (oneStepOptions (1/100)) = LoopEnd
   \<and> points (computeTrajectory [] \<lparr>vec_x = 0, vec_y = 0\<rparr> \<lparr>vec_x = 0, vec_y = 0\<rparr> (oneStepOptions (1/100)))
       = [\<lparr>pt_x = 0, pt_y = 0, pt_z = 0\<rparr>]
   \<and> finalPos (computeTrajectory [] \<lparr>vec_x = 0, vec_y = 0\<rparr> \<lparr>vec_x = 0, vec_y = 0\<rparr> (oneStepOptions (1/100)))
       = \<lparr>vec_x = 0, vec_y = 0\<rparr>
   \<and> exitOf [\<lparr>mass_x = 0, mass_y = 0, strength = 3/2\<rparr>] \<lparr>vec_x = 0, vec_y = 0\<rparr> \<lparr>vec_x = 0, vec_y = 0\<rparr>
       (oneStepOptions 0) = TooCloseBreak
   \<and> points (computeTrajectory [\<lparr>mass_x = 0, mass_y = 0, strength = 3/2\<rparr>] \<lparr>vec_x = 0, vec_y = 0\<rparr>
       \<lparr>vec_x = 0, vec_y = 0\<rparr> (oneStepOptions 0)) = [\<lparr>pt_x = 0, pt_y = 0, pt_z = - 3\<rparr>]
   \<and> finalPos (computeTrajectory [\<lparr>mass_x = 0, mass_y = 0, strength = 3/2\<rparr>] \<lparr>vec_x = 0, vec_y = 0\<rparr>
       \<lparr>vec_x = 0, vec_y = 0\<rparr> (oneStepOptions 0)) = \<lparr>vec_x = 0, vec_y = 0\<rparr>"
  by (simp add: exitOf_def computeTrajectory_def run_rest_flat run_captured_at_centre)

end
